theory Spec2Isabelle
  imports Main
begin

section \<open>JavaScript values\<close>

text \<open>
  The values that reach \<open>ApiClient\<close> and \<open>EntityCrudApi\<close> (src/lib/EntityCrudApi.js).
  A plain object is the list of its own enumerable properties in iteration order; an array
  is the list of its elements. A date carries its \<open>toISOString()\<close> text, a \<open>FormData\<close>
  instance the fields appended to it so far, a function its identity together with its own
  enumerable properties (lodash's \<open>_.isEmpty\<close> looks at them). A promise is represented by
  its settlement: fulfilled with a value or rejected with a reason.
  Numbers are integers (they occur here only as identifiers, lengths and payloads) and
  strings are ASCII.
\<close>

datatype jsval =
    JUndefined
  | JNull
  | JBool bool
  | JNum int
  | JStr string
  | JArr "jsval list"
  | JObj "(string \<times> jsval) list"
  | JDate string
  | JFormData "(string \<times> jsval) list"
  | JFun nat "(string \<times> jsval) list"
  | JPromise jsval
  | JRejected jsval

text \<open>
  What a rejected future or a thrown exception carries. \<open>Unsupported\<close> is not a
  JavaScript outcome: it marks an input on which the model does not say what the platform
  does (the text of a date or of a function, a URL outside the modelled syntax).
\<close>

datatype failure =
    Rejection jsval
  | TypeError
  | Unsupported

subsection \<open>lodash predicates\<close>

fun isNil :: "jsval \<Rightarrow> bool" where
  "isNil JUndefined = True"
| "isNil JNull = True"
| "isNil _ = False"

fun isUndefined :: "jsval \<Rightarrow> bool" where
  "isUndefined JUndefined = True"
| "isUndefined _ = False"

fun isPlainObject :: "jsval \<Rightarrow> bool" where
  "isPlainObject (JObj _) = True"
| "isPlainObject _ = False"

fun isFormData :: "jsval \<Rightarrow> bool" where
  "isFormData (JFormData _) = True"
| "isFormData _ = False"

text \<open>
  lodash takes an object for an array-like when its \<open>length\<close> is an integer from 0 to
  \<open>Number.MAX_SAFE_INTEGER\<close>: then \<open>_.each\<close> visits the indices below that length, each
  with the value stored under it or \<open>undefined\<close>, and not the properties.
\<close>

definition arrayLikeLength :: "(string \<times> jsval) list \<Rightarrow> nat option" where
  "arrayLikeLength kvs =
     (case map_of kvs ''length'' of
        Some (JNum n) \<Rightarrow> if 0 \<le> n \<and> n \<le> 9007199254740991 then Some (nat n) else None
      | _ \<Rightarrow> None)"

text \<open>
  \<open>_.isEmpty\<close>: nil is empty; an array or a string is empty when its length is 0, and so is
  an array-like object with a \<open>splice\<close> function; any other value is empty when it has no
  own enumerable property. A number, a boolean, a date and a function declared without
  properties of its own are therefore all empty. A \<open>FormData\<close> instance and a bluebird
  promise carry own fields set by their constructors.
\<close>

fun isEmpty :: "jsval \<Rightarrow> bool" where
  "isEmpty JUndefined = True"
| "isEmpty JNull = True"
| "isEmpty (JBool _) = True"
| "isEmpty (JNum _) = True"
| "isEmpty (JStr s) = (s = [])"
| "isEmpty (JArr xs) = (xs = [])"
| "isEmpty (JObj kvs) =
     (case (arrayLikeLength kvs, map_of kvs ''splice'') of
        (Some n, Some (JFun _ _)) \<Rightarrow> n = 0
      | _ \<Rightarrow> kvs = [])"
| "isEmpty (JDate _) = True"
| "isEmpty (JFormData _) = False"
| "isEmpty (JFun _ props) = (props = [])"
| "isEmpty (JPromise _) = False"
| "isEmpty (JRejected _) = False"

subsection \<open>Property access\<close>

text \<open>\<open>_.has(object, key)\<close> for a single key: an own property of an object or function.\<close>

fun has :: "jsval \<Rightarrow> string \<Rightarrow> bool" where
  "has (JObj kvs) k = (map_of kvs k \<noteq> None)"
| "has (JFun _ kvs) k = (map_of kvs k \<noteq> None)"
| "has _ k = False"

text \<open>
  \<open>_.get(object, key)\<close> for a single key: the property's value, \<open>undefined\<close> when it is
  missing or the receiver has no such own property. The keys that the code reads are
  never an array index, \<open>length\<close> or a property of \<open>Object.prototype\<close>, so arrays and
  strings, like every other value without named properties, give \<open>undefined\<close>.
\<close>

fun get :: "jsval \<Rightarrow> string \<Rightarrow> jsval" where
  "get (JObj kvs) k = (case map_of kvs k of Some v \<Rightarrow> v | None \<Rightarrow> JUndefined)"
| "get (JFun _ kvs) k = (case map_of kvs k of Some v \<Rightarrow> v | None \<Rightarrow> JUndefined)"
| "get _ k = JUndefined"

text \<open>\<open>_.get(object, key, default)\<close>: the default replaces an \<open>undefined\<close> result only.\<close>

definition get_default :: "jsval \<Rightarrow> string \<Rightarrow> jsval \<Rightarrow> jsval" where
  "get_default obj k d = (let v = get obj k in if isUndefined v then d else v)"

text \<open>Assignment \<open>object[key] = value\<close>: an existing key keeps its place, a new one goes last.\<close>

fun put :: "string \<Rightarrow> jsval \<Rightarrow> (string \<times> jsval) list \<Rightarrow> (string \<times> jsval) list" where
  "put k v [] = [(k, v)]"
| "put k v ((k', v') # kvs) = (if k = k' then (k, v) # kvs else (k', v') # put k v kvs)"

subsection \<open>Strings\<close>

definition digit_char :: "nat \<Rightarrow> char" where
  "digit_char d = ''0123456789'' ! d"

fun string_of_nat :: "nat \<Rightarrow> string" where
  "string_of_nat n =
     (if n < 10 then [digit_char n] else string_of_nat (n div 10) @ [digit_char (n mod 10)])"

definition string_of_int :: "int \<Rightarrow> string" where
  "string_of_int i = (if i < 0 then CHR ''-'' # string_of_nat (nat (- i)) else string_of_nat (nat i))"

definition to_lower_char :: "char \<Rightarrow> char" where
  "to_lower_char c =
     (case map_of (zip ''ABCDEFGHIJKLMNOPQRSTUVWXYZ'' ''abcdefghijklmnopqrstuvwxyz'') c of
        Some l \<Rightarrow> l
      | None \<Rightarrow> c)"

definition toLower :: "string \<Rightarrow> string" where
  "toLower s = map to_lower_char s"

text \<open>
  \<open>String(value)\<close>, as template literals, \<open>Array.prototype.join\<close> and the \<open>URL\<close>
  constructor apply it. The text of a date depends on the time zone, that of a function
  is its source, and an object with a \<open>toString\<close> of its own decides its text itself: all
  three are left open. So is the text of a number beyond the integers that JavaScript
  holds exactly (up to 9007199254740991 in absolute value): within them the text is the
  decimal numeral, while the large ones print with an exponent.
\<close>

fun join_with :: "string \<Rightarrow> string list \<Rightarrow> string" where
  "join_with sep [] = []"
| "join_with sep [x] = x"
| "join_with sep (x # y # ys) = x @ sep @ join_with sep (y # ys)"

fun to_string :: "jsval \<Rightarrow> string option"
  and element_string :: "jsval \<Rightarrow> string option"
  and element_strings :: "jsval list \<Rightarrow> string list option"
where
  "to_string JUndefined = Some ''undefined''"
| "to_string JNull = Some ''null''"
| "to_string (JBool b) = Some (if b then ''true'' else ''false'')"
| "to_string (JNum n) =
     (if - 9007199254740991 \<le> n \<and> n \<le> 9007199254740991 then Some (string_of_int n) else None)"
| "to_string (JStr s) = Some s"
| "to_string (JArr xs) = map_option (join_with '','') (element_strings xs)"
| "to_string (JObj kvs) = (if map_of kvs ''toString'' = None then Some ''[object Object]'' else None)"
| "to_string (JDate _) = None"
| "to_string (JFormData _) = Some ''[object FormData]''"
| "to_string (JFun _ _) = None"
| "to_string (JPromise _) = Some ''[object Promise]''"
| "to_string (JRejected _) = Some ''[object Promise]''"
| "element_string v = (if isNil v then Some [] else to_string v)"
| "element_strings [] = Some []"
| "element_strings (x # xs) =
     (case element_string x of
        None \<Rightarrow> None
      | Some t \<Rightarrow> (case element_strings xs of None \<Rightarrow> None | Some ts \<Rightarrow> Some (t # ts)))"

text \<open>\<open>_.join(array, separator)\<close>: nil elements give the empty string.\<close>

definition join :: "jsval list \<Rightarrow> string \<Rightarrow> string option" where
  "join xs sep = map_option (join_with sep) (element_strings xs)"

text \<open>\<open>_.flattenDeep\<close>: nested arrays collapse into one sequence, in order.\<close>

fun flattenDeep :: "jsval list \<Rightarrow> jsval list"
  and flatten_value :: "jsval \<Rightarrow> jsval list"
where
  "flattenDeep [] = []"
| "flattenDeep (x # xs) = flatten_value x @ flattenDeep xs"
| "flatten_value (JArr xs) = flattenDeep xs"
| "flatten_value JUndefined = [JUndefined]"
| "flatten_value JNull = [JNull]"
| "flatten_value (JBool b) = [JBool b]"
| "flatten_value (JNum n) = [JNum n]"
| "flatten_value (JStr s) = [JStr s]"
| "flatten_value (JObj kvs) = [JObj kvs]"
| "flatten_value (JDate t) = [JDate t]"
| "flatten_value (JFormData es) = [JFormData es]"
| "flatten_value (JFun i ps) = [JFun i ps]"
| "flatten_value (JPromise v) = [JPromise v]"
| "flatten_value (JRejected v) = [JRejected v]"

section \<open>The platform's URL class\<close>

text \<open>
  What the code reads from a \<open>URL\<close> object: four getters and \<open>toString()\<close>.
\<close>

record url =
  protocol :: string
  hostname :: string
  port :: string
  pathname :: string
  href :: string

text \<open>
  The URL parser of the WHATWG standard, on the syntax
  \<open>scheme://host[:port][/segment/...]\<close> for absolute input and \<open>[/]segment/...\<close> for
  relative input, where the scheme is one of http, https, ws, wss and ftp, the host is a
  dot-separated ASCII domain whose last label starts with a letter, and every path
  character is a letter, a digit or one of \<open>- . _ ~\<close>. On any other input the result is
  \<open>None\<close>: the model does not say what the parser does there. \<open>Some (Inl TypeError)\<close> is
  the parser's failure, which the constructor throws.
\<close>

record parsed_url =
  p_scheme :: string
  p_host :: string
  p_port :: "nat option"
  p_path :: "string list"

definition is_alpha :: "char \<Rightarrow> bool" where
  "is_alpha c = (c \<in> set ''abcdefghijklmnopqrstuvwxyzABCDEFGHIJKLMNOPQRSTUVWXYZ'')"

definition is_digit :: "char \<Rightarrow> bool" where
  "is_digit c = (c \<in> set ''0123456789'')"

definition is_path_char :: "char \<Rightarrow> bool" where
  "is_path_char c = (is_alpha c \<or> is_digit c \<or> c \<in> set ''-._~'')"

fun split_on :: "char \<Rightarrow> string \<Rightarrow> string list" where
  "split_on sep [] = [[]]"
| "split_on sep (c # cs) =
     (if c = sep then [] # split_on sep cs
      else (case split_on sep cs of [] \<Rightarrow> [[c]] | w # ws \<Rightarrow> (c # w) # ws))"

definition default_port :: "string \<Rightarrow> nat option" where
  "default_port s =
     (if s = ''http'' \<or> s = ''ws'' then Some 80
      else if s = ''https'' \<or> s = ''wss'' then Some 443
      else if s = ''ftp'' then Some 21
      else None)"

text \<open>A scheme: a letter, then letters, digits, \<open>+\<close>, \<open>-\<close> and \<open>.\<close>, up to the first colon.\<close>

definition is_scheme :: "string \<Rightarrow> bool" where
  "is_scheme s =
     (case s of [] \<Rightarrow> False
      | c # cs \<Rightarrow> is_alpha c \<and> (\<forall>d \<in> set cs. is_alpha d \<or> is_digit d \<or> d \<in> set ''+-.''))"

definition digit_value :: "char \<Rightarrow> nat" where
  "digit_value c = (case map_of (zip ''0123456789'' [0, 1, 2, 3, 4, 5, 6, 7, 8, 9]) c of
                      Some d \<Rightarrow> d | None \<Rightarrow> 0)"

definition nat_of_digits :: "string \<Rightarrow> nat" where
  "nat_of_digits s = foldl (\<lambda>n c. 10 * n + digit_value c) 0 s"

definition is_label :: "string \<Rightarrow> bool" where
  "is_label l = (l \<noteq> [] \<and> (\<forall>c \<in> set l. is_alpha c \<or> is_digit c \<or> c = CHR ''-'')
                 \<and> take 4 (toLower l) \<noteq> ''xn--'')"

definition is_domain :: "string \<Rightarrow> bool" where
  "is_domain h = (let ls = split_on CHR ''.'' h
                  in (\<forall>l \<in> set ls. is_label l) \<and> is_alpha (hd (last ls)))"

text \<open>
  The path state: \<open>..\<close> drops the last segment, \<open>.\<close> adds none, and either of them as the
  final piece leaves a trailing empty segment.
\<close>

fun walk_path :: "string list \<Rightarrow> string list \<Rightarrow> string list" where
  "walk_path p [] = p"
| "walk_path p [s] =
     (if s = ''..'' then butlast p @ [[]] else if s = ''.'' then p @ [[]] else p @ [s])"
| "walk_path p (s # t # ts) =
     (if s = ''..'' then walk_path (butlast p) (t # ts)
      else if s = ''.'' then walk_path p (t # ts)
      else walk_path (p @ [s]) (t # ts))"

definition parse_port :: "string \<Rightarrow> string \<Rightarrow> failure + nat option" where
  "parse_port sch p =
     (if \<not> (\<forall>c \<in> set p. is_digit c) then Inl TypeError
      else if p = [] then Inr None
      else if nat_of_digits p > 65535 then Inl TypeError
      else if Some (nat_of_digits p) = default_port sch then Inr None
      else Inr (Some (nat_of_digits p)))"

definition parse_absolute :: "string \<Rightarrow> string \<Rightarrow> (failure + parsed_url) option" where
  "parse_absolute sch rest =
     (if default_port sch = None \<or> take 2 rest \<noteq> ''//'' \<or> take 3 rest = ''///'' then None
      else
        let after = drop 2 rest;
            authority = takeWhile (\<lambda>c. c \<noteq> CHR ''/'') after;
            path_part = dropWhile (\<lambda>c. c \<noteq> CHR ''/'') after;
            host_part = takeWhile (\<lambda>c. c \<noteq> CHR '':'') authority;
            port_part = drop (Suc (length host_part)) authority
        in if \<not> (\<forall>c \<in> set path_part. is_path_char c \<or> c = CHR ''/'') then None
           else if \<not> (\<forall>c \<in> set authority. is_alpha c \<or> is_digit c \<or> c \<in> set ''-.:'') then None
           else if host_part = [] then Some (Inl TypeError)
           else if \<not> is_domain host_part then None
           else (case parse_port sch port_part of
                   Inl e \<Rightarrow> Some (Inl e)
                 | Inr pn \<Rightarrow>
                     Some (Inr \<lparr>p_scheme = sch, p_host = toLower host_part, p_port = pn,
                                p_path = walk_path [] (split_on CHR ''/'' (drop 1 path_part))\<rparr>)))"

definition parse_relative :: "string \<Rightarrow> parsed_url \<Rightarrow> (failure + parsed_url) option" where
  "parse_relative input b =
     (if \<not> (\<forall>c \<in> set input. is_path_char c \<or> c = CHR ''/'') \<or> take 2 input = ''//'' then None
      else if input = [] then Some (Inr b)
      else if hd input = CHR ''/''
        then Some (Inr (b\<lparr>p_path := walk_path [] (split_on CHR ''/'' (tl input))\<rparr>))
      else Some (Inr (b\<lparr>p_path := walk_path (butlast (p_path b)) (split_on CHR ''/'' input)\<rparr>)))"

definition basic_parse :: "string \<Rightarrow> parsed_url option \<Rightarrow> (failure + parsed_url) option" where
  "basic_parse input base =
     (let pre = takeWhile (\<lambda>c. c \<noteq> CHR '':'') input
      in if CHR '':'' \<in> set input \<and> is_scheme pre
           then parse_absolute (toLower pre) (drop (Suc (length pre)) input)
         else if CHR '':'' \<in> set input then None
         else (case base of None \<Rightarrow> Some (Inl TypeError) | Some b \<Rightarrow> parse_relative input b))"

definition serialize_url :: "parsed_url \<Rightarrow> url" where
  "serialize_url u =
     (let pt = (case p_port u of None \<Rightarrow> [] | Some n \<Rightarrow> string_of_nat n);
          pn = concat (map (\<lambda>s. CHR ''/'' # s) (p_path u))
      in \<lparr>protocol = p_scheme u @ '':'',
          hostname = p_host u,
          port = pt,
          pathname = pn,
          href = p_scheme u @ ''://'' @ p_host u @ (if pt = [] then [] else CHR '':'' # pt) @ pn\<rparr>)"

text \<open>
  \<open>new URL(input, base)\<close>: the base, when given, is parsed first and an invalid base
  throws; the input is then parsed against it.
\<close>

definition whatwg_URL :: "string \<Rightarrow> string option \<Rightarrow> (failure + url) option" where
  "whatwg_URL input base =
     (case base of
        None \<Rightarrow> map_option (map_sum id serialize_url) (basic_parse input None)
      | Some b \<Rightarrow>
          (case basic_parse b None of
             None \<Rightarrow> None
           | Some (Inl e) \<Rightarrow> Some (Inl e)
           | Some (Inr pb) \<Rightarrow> map_option (map_sum id serialize_url) (basic_parse input (Some pb))))"

section \<open>The environment of a client\<close>

text \<open>
  Everything the code calls and does not define: the \<open>URL\<close> constructor, the HTTP
  transport (\<open>axios.request\<close>), the boundary that a \<open>FormData\<close> reports in its headers, the
  functions passed in by the caller, looked up by their identity, and the timing of the
  caller's promises: of several rejected promises that are waited for together,
  \<open>settles_first\<close> gives the position of the one that settles first. \<open>'w\<close> is the state of
  the outside world (the server, the callbacks' closures). A call of a caller's function
  returns its result together with the request config it was given, as the function left
  it: the config is a mutable object.
\<close>

record 'w host =
  new_URL :: "string \<Rightarrow> string option \<Rightarrow> failure + url"
  transport :: "jsval \<Rightarrow> 'w \<Rightarrow> (failure + jsval) \<times> 'w"
  getBoundary :: "jsval \<Rightarrow> string"
  authCallback_call :: "nat \<Rightarrow> jsval \<Rightarrow> 'w \<Rightarrow> (failure + jsval) \<times> 'w"
  paginationCallback_call :: "nat \<Rightarrow> jsval \<Rightarrow> jsval \<Rightarrow> 'w \<Rightarrow> (failure + jsval \<times> jsval) \<times> 'w"
  settles_first :: "jsval list \<Rightarrow> nat"

text \<open>The modelled URL parser as a constructor.\<close>

definition whatwg_new_URL :: "string \<Rightarrow> string option \<Rightarrow> failure + url" where
  "whatwg_new_URL input base = (case whatwg_URL input base of None \<Rightarrow> Inl Unsupported | Some r \<Rightarrow> r)"

section \<open>ApiClient\<close>

record client =
  c_hostname :: jsval
  c_port :: jsval
  c_protocol :: jsval
  c_basePath :: jsval
  c_authCallback :: jsval
  c_credentials :: jsval

text \<open>
  The constructor. A field that the source leaves unassigned (\<open>_authCallback\<close> without an
  \<open>authCallback\<close> key) reads as \<open>undefined\<close>.
\<close>

definition construct :: "'w host \<Rightarrow> jsval \<Rightarrow> failure + client" where
  "construct h params =
     (let baseUrl = get params ''baseUrl'';
          cb = (if has params ''authCallback'' then get params ''authCallback'' else JUndefined);
          creds =
            (if has params ''token'' then JObj [(''token'', get params ''token'')]
             else if has params ''username'' \<and> has params ''password''
               then JObj [(''username'', get params ''username''), (''password'', get params ''password'')]
             else if has params ''authHeaders'' then JObj [(''authHeaders'', get params ''authHeaders'')]
             else get_default params ''credentials'' (JObj []))
      in if \<not> isNil baseUrl then
           (case to_string baseUrl of
              None \<Rightarrow> Inl Unsupported
            | Some text \<Rightarrow>
                (case new_URL h text None of
                   Inl e \<Rightarrow> Inl e
                 | Inr u \<Rightarrow>
                     Inr \<lparr>c_hostname = JStr (hostname u), c_port = JStr (port u),
                          c_protocol = JStr (protocol u), c_basePath = JStr (pathname u),
                          c_authCallback = cb, c_credentials = creds\<rparr>))
         else
           Inr \<lparr>c_hostname = get params ''hostname'',
                c_port = get_default params ''port'' (JNum 443),
                c_protocol = get_default params ''protocol'' (JStr ''https:''),
                c_basePath = get params ''basePath'',
                c_authCallback = cb, c_credentials = creds\<rparr>)"

subsection \<open>URL builder\<close>

text \<open>
  \<open>_buildUrl(...urlSlugs)\<close>: the base is \<open>new URL(basePath, protocol//hostname:port)\<close>, the
  slugs are flattened and joined with \<open>/\<close> behind \<open>./\<close>, and the result is
  \<open>new URL(relativePath, baseUrl).toString()\<close>. A \<open>URL\<close> given as base is read through its
  \<open>href\<close>.
\<close>

definition buildUrl :: "'w host \<Rightarrow> client \<Rightarrow> jsval list \<Rightarrow> failure + string" where
  "buildUrl h c urlSlugs =
     (case (to_string (c_basePath c), to_string (c_protocol c), to_string (c_hostname c),
            to_string (c_port c)) of
        (Some bp, Some pr, Some hn, Some pt) \<Rightarrow>
          (case new_URL h bp (Some (pr @ ''//'' @ hn @ '':'' @ pt)) of
             Inl e \<Rightarrow> Inl e
           | Inr baseUrl \<Rightarrow>
               (case join (flattenDeep urlSlugs) ''/'' of
                  None \<Rightarrow> Inl Unsupported
                | Some joined \<Rightarrow>
                    (case new_URL h (''./'' @ joined) (Some (href baseUrl)) of
                       Inl e \<Rightarrow> Inl e
                     | Inr resolvedUrl \<Rightarrow> Inr (href resolvedUrl))))
      | _ \<Rightarrow> Inl Unsupported)"

subsection \<open>Object resolver\<close>

text \<open>
  A promise settles to the value it is fulfilled with or to a rejection; a promise resolved
  with another promise adopts that promise's settlement.
\<close>

fun settle :: "jsval \<Rightarrow> jsval + jsval" where
  "settle (JPromise v) = settle v"
| "settle (JRejected e) = Inl e"
| "settle JUndefined = Inr JUndefined"
| "settle JNull = Inr JNull"
| "settle (JBool b) = Inr (JBool b)"
| "settle (JNum n) = Inr (JNum n)"
| "settle (JStr s) = Inr (JStr s)"
| "settle (JArr xs) = Inr (JArr xs)"
| "settle (JObj kvs) = Inr (JObj kvs)"
| "settle (JDate t) = Inr (JDate t)"
| "settle (JFormData es) = Inr (JFormData es)"
| "settle (JFun i ps) = Inr (JFun i ps)"

text \<open>
  Waiting for two futures together, as \<open>Promise.props\<close> and \<open>Promise.map\<close> do for all of
  theirs: the results of both when both are fulfilled, and otherwise the reasons of the
  rejections met, a first one and the others, in the order of the properties or elements.
\<close>

fun await_both ::
  "(jsval \<times> jsval list) + 'a \<Rightarrow> (jsval \<times> jsval list) + 'b \<Rightarrow> ('a \<Rightarrow> 'b \<Rightarrow> 'c)
     \<Rightarrow> (jsval \<times> jsval list) + 'c" where
  "await_both (Inl (a, as)) (Inl (b, bs)) f = Inl (a, as @ b # bs)"
| "await_both (Inl r) (Inr y) f = Inl r"
| "await_both (Inr x) (Inl r) f = Inl r"
| "await_both (Inr x) (Inr y) f = Inr (f x y)"

text \<open>
  \<open>ApiClient._deepResolve(object)\<close>. \<open>Promise.props\<close> over the mapped values of a plain
  object waits for every property; \<open>Promise.map\<close> over an array waits for each element and
  then maps the value it was fulfilled with; any other value goes through
  \<open>Promise.resolve\<close>, which does not look inside what a promise is fulfilled with.
  The returned future is fulfilled with the resolved value when no promise that is waited
  for rejects. Otherwise it rejects with the reason of the one that settles first, which
  the code does not decide: the result is then the reasons of all the rejected promises
  waited for, and \<open>rejection\<close> below lets the environment pick among them.
  The promises are those of the constructors \<open>JPromise\<close> and \<open>JRejected\<close>: an object or
  function with a callable \<open>then\<close> among its own properties, which bluebird would call,
  is not among the values considered.
\<close>

fun deepResolve :: "jsval \<Rightarrow> (jsval \<times> jsval list) + jsval"
  and deepResolve_props :: "(string \<times> jsval) list \<Rightarrow> (jsval \<times> jsval list) + (string \<times> jsval) list"
  and deepResolve_map :: "jsval list \<Rightarrow> (jsval \<times> jsval list) + jsval list"
  and deepResolve_item :: "jsval \<Rightarrow> (jsval \<times> jsval list) + jsval"
where
  "deepResolve (JObj kvs) =
     (case deepResolve_props kvs of Inl e \<Rightarrow> Inl e | Inr rs \<Rightarrow> Inr (JObj rs))"
| "deepResolve (JArr xs) =
     (case deepResolve_map xs of Inl e \<Rightarrow> Inl e | Inr rs \<Rightarrow> Inr (JArr rs))"
| "deepResolve (JPromise v) = (case settle v of Inl e \<Rightarrow> Inl (e, []) | Inr r \<Rightarrow> Inr r)"
| "deepResolve (JRejected e) = Inl (e, [])"
| "deepResolve JUndefined = Inr JUndefined"
| "deepResolve JNull = Inr JNull"
| "deepResolve (JBool b) = Inr (JBool b)"
| "deepResolve (JNum n) = Inr (JNum n)"
| "deepResolve (JStr s) = Inr (JStr s)"
| "deepResolve (JDate t) = Inr (JDate t)"
| "deepResolve (JFormData es) = Inr (JFormData es)"
| "deepResolve (JFun i ps) = Inr (JFun i ps)"
| "deepResolve_props [] = Inr []"
| "deepResolve_props ((k, v) # kvs) =
     await_both (deepResolve v) (deepResolve_props kvs) (\<lambda>r rs. (k, r) # rs)"
| "deepResolve_map [] = Inr []"
| "deepResolve_map (x # xs) = await_both (deepResolve_item x) (deepResolve_map xs) (\<lambda>r rs. r # rs)"
| "deepResolve_item (JPromise v) = deepResolve_item v"
| "deepResolve_item (JRejected e) = Inl (e, [])"
| "deepResolve_item JUndefined = deepResolve JUndefined"
| "deepResolve_item JNull = deepResolve JNull"
| "deepResolve_item (JBool b) = deepResolve (JBool b)"
| "deepResolve_item (JNum n) = deepResolve (JNum n)"
| "deepResolve_item (JStr s) = deepResolve (JStr s)"
| "deepResolve_item (JArr xs) = deepResolve (JArr xs)"
| "deepResolve_item (JObj kvs) = deepResolve (JObj kvs)"
| "deepResolve_item (JDate t) = deepResolve (JDate t)"
| "deepResolve_item (JFormData es) = deepResolve (JFormData es)"
| "deepResolve_item (JFun i ps) = deepResolve (JFun i ps)"

text \<open>The reason that a future waiting for several rejected promises rejects with.\<close>

definition rejection :: "'w host \<Rightarrow> jsval \<times> jsval list \<Rightarrow> jsval" where
  "rejection h r =
     (case r of (e, es) \<Rightarrow> (e # es) ! (settles_first h (e # es) mod Suc (length es)))"

subsection \<open>Writing to the request config\<close>

text \<open>
  The values that carry named properties in this model, plain objects and functions, and
  those that are no objects at all.
\<close>

fun hasProperties :: "jsval \<Rightarrow> bool" where
  "hasProperties (JObj _) = True"
| "hasProperties (JFun _ _) = True"
| "hasProperties _ = False"

fun isPrimitive :: "jsval \<Rightarrow> bool" where
  "isPrimitive JUndefined = True"
| "isPrimitive JNull = True"
| "isPrimitive (JBool _) = True"
| "isPrimitive (JNum _) = True"
| "isPrimitive (JStr _) = True"
| "isPrimitive _ = False"

text \<open>
  The assignment \<open>object[key] = value\<close> on a plain object or a function. The code makes it
  on such receivers only; a value that is no object is left as it is, as \<open>_.set\<close> does.
\<close>

fun set_key :: "jsval \<Rightarrow> string \<Rightarrow> jsval \<Rightarrow> jsval" where
  "set_key (JObj kvs) k v = JObj (put k v kvs)"
| "set_key (JFun i ps) k v = JFun i (put k v ps)"
| "set_key obj k v = obj"

text \<open>
  \<open>_.set(object, path, value)\<close> for a path of one key and of two. A receiver that is no
  object is returned as it is. On the way to the second key a nil or primitive
  \<open>object[key1]\<close> is replaced by a new object. The result is \<open>None\<close> where the model has
  no value for it: for a receiver that is an object without named properties here (an
  array, a date, a \<open>FormData\<close>, a promise); for a second key that is an array index (where
  lodash creates an array instead of an object, and where an object lists the key before
  those that are no index); and for the names \<open>__proto__\<close>, \<open>constructor\<close> and
  \<open>prototype\<close>, which lodash writes or refuses depending on its version.
\<close>

definition isIndex :: "string \<Rightarrow> bool" where
  "isIndex key =
     (key \<noteq> [] \<and> list_all is_digit key \<and> (key = ''0'' \<or> hd key \<in> set ''123456789'') \<and>
      nat_of_digits key < 9007199254740991)"

definition set_property :: "jsval \<Rightarrow> string \<Rightarrow> jsval \<Rightarrow> jsval option" where
  "set_property object key v =
     (if isPrimitive object then Some object
      else if hasProperties object then Some (set_key object key v)
      else None)"

definition set_path :: "jsval \<Rightarrow> string \<Rightarrow> string \<Rightarrow> jsval \<Rightarrow> jsval option" where
  "set_path object key1 key2 v =
     (if isPrimitive object then Some object
      else if hasProperties object \<and> \<not> isIndex key2 \<and>
              key2 \<notin> set [''__proto__'', ''constructor'', ''prototype''] then
        (let objValue = get object key1;
             newValue = (if isPrimitive objValue then JObj [] else objValue)
         in map_option (set_key object key1) (set_property newValue key2 v))
      else None)"

text \<open>The own enumerable properties that \<open>_.keys\<close>, \<open>_.assign\<close> and \<open>_.merge\<close> walk.\<close>

fun entries :: "jsval \<Rightarrow> (string \<times> jsval) list" where
  "entries (JObj kvs) = kvs"
| "entries (JFun _ ps) = ps"
| "entries (JArr xs) = zip (map string_of_nat [0..<length xs]) xs"
| "entries (JStr s) = zip (map string_of_nat [0..<length s]) (map (\<lambda>c. JStr [c]) s)"
| "entries _ = []"

text \<open>
  What \<open>_.each\<close> visits, as keys and values: the indices of an array, of a string and of an
  array-like object, the own properties of any other object or function, and nothing in
  a nil, a number, a boolean or a date. \<open>None\<close> for a \<open>FormData\<close> and a promise, whose own
  fields are not part of the model.
\<close>

definition each_entries :: "jsval \<Rightarrow> (string \<times> jsval) list option" where
  "each_entries collection =
     (case collection of
        JObj kvs \<Rightarrow>
          Some (case arrayLikeLength kvs of
                  Some n \<Rightarrow> map (\<lambda>i. (string_of_nat i, get (JObj kvs) (string_of_nat i))) [0..<n]
                | None \<Rightarrow> kvs)
      | JFormData _ \<Rightarrow> None
      | JPromise _ \<Rightarrow> None
      | JRejected _ \<Rightarrow> None
      | _ \<Rightarrow> Some (entries collection))"

definition keys :: "jsval \<Rightarrow> string list" where
  "keys obj = map fst (entries obj)"

text \<open>\<open>_.assign({}, ...sources)\<close>: later sources overwrite earlier ones, nil sources are skipped.\<close>

definition assign :: "jsval list \<Rightarrow> jsval" where
  "assign sources = JObj (foldl (\<lambda>acc src. foldl (\<lambda>a (k, v). put k v a) acc (entries src)) [] sources)"

text \<open>
  \<open>_.defaults(object, source)\<close>: a source property is written where the object's own value
  is \<open>undefined\<close>, be it missing or stored as such.
\<close>

definition defaults :: "jsval \<Rightarrow> (string \<times> jsval) list \<Rightarrow> jsval" where
  "defaults obj source =
     foldl (\<lambda>acc (k, v). if isUndefined (get acc k) then set_key acc k v else acc) obj source"

subsection \<open>Authenticator\<close>

text \<open>
  The loop \<open>_.each(authHeaders, (value, header) => _.set(config, ['headers', header], value))\<close>.
\<close>

fun set_headers :: "jsval \<Rightarrow> (string \<times> jsval) list \<Rightarrow> jsval option" where
  "set_headers config [] = Some config"
| "set_headers config ((header, v) # authHeaders) =
     (case set_path config ''headers'' header v of
        None \<Rightarrow> None
      | Some config' \<Rightarrow> set_headers config' authHeaders)"

fun written :: "jsval option \<Rightarrow> failure + jsval" where
  "written None = Inl Unsupported"
| "written (Some config) = Inr config"

text \<open>
  \<open>_authenticate(config)\<close>. Calling \<open>_authCallback\<close> when it is not a function throws. The
  result is the config as the call leaves it, with the state of the world.
\<close>

definition authenticate :: "'w host \<Rightarrow> client \<Rightarrow> jsval \<Rightarrow> 'w \<Rightarrow> (failure + jsval) \<times> 'w" where
  "authenticate h c config0 w =
     (let config = (if isNil config0 then JObj [] else config0);
          credentials = c_credentials c
      in if \<not> isEmpty (c_authCallback c) then
           (case c_authCallback c of
              JFun i _ \<Rightarrow> authCallback_call h i config w
            | _ \<Rightarrow> (Inl TypeError, w))
         else if has credentials ''token'' then
           (case to_string (get credentials ''token'') of
              None \<Rightarrow> (Inl Unsupported, w)
            | Some token \<Rightarrow>
                (written (set_path config ''headers'' ''Authorization'' (JStr (''Bearer '' @ token))), w))
         else if has credentials ''username'' \<and> has credentials ''password'' then
           (written (set_property config ''auth''
                       (JObj [(''username'', get credentials ''username''),
                              (''password'', get credentials ''password'')])), w)
         else if has credentials ''authHeaders'' then
           (case each_entries (get credentials ''authHeaders'') of
              None \<Rightarrow> (Inl Unsupported, w)
            | Some authHeaders \<Rightarrow> (written (set_headers config authHeaders), w))
         else (Inr config, w))"

subsection \<open>Argument parser\<close>

definition takeRightWhile :: "('a \<Rightarrow> bool) \<Rightarrow> 'a list \<Rightarrow> 'a list" where
  "takeRightWhile P xs = rev (takeWhile P (rev xs))"

text \<open>Reading \<open>array[i]\<close>: \<open>undefined\<close> beyond the end.\<close>

definition at_index :: "jsval list \<Rightarrow> nat \<Rightarrow> jsval" where
  "at_index xs i = (if i < length xs then xs ! i else JUndefined)"

fun elements :: "jsval \<Rightarrow> jsval list" where
  "elements (JArr xs) = xs"
| "elements _ = []"

definition configObjectArgs :: "jsval list \<Rightarrow> jsval list" where
  "configObjectArgs arguments = takeRightWhile (\<lambda>arg. isPlainObject arg \<or> isNil arg) (butlast arguments)"

definition resolveUrlArgs :: "jsval list \<Rightarrow> jsval list" where
  "resolveUrlArgs arguments =
     take (length (butlast arguments) - length (configObjectArgs arguments)) (butlast arguments)"

text \<open>
  What \<open>.toLowerCase()\<close> ends with on a value that is no string: the call throws, unless
  the value brings a function of that name, whose result is left open.
\<close>

definition toLowerCase_failure :: "jsval \<Rightarrow> failure" where
  "toLowerCase_failure v = (case get v ''toLowerCase'' of JFun _ _ \<Rightarrow> Unsupported | _ \<Rightarrow> TypeError)"

text \<open>
  The branch on the number of config-object arguments, giving \<open>config\<close>, \<open>data\<close> and
  \<open>params\<close>. In the branch for two, \<open>.toLowerCase()\<close> is called on whatever
  \<open>_.get(config, 'method', defaultMethod)\<close> returns; the lower-cased method is a variable
  of that branch only. The number of config-object arguments is the length of the
  resolved list, since \<open>Promise.map\<close> keeps the length.
\<close>

definition disambiguate :: "jsval list \<Rightarrow> jsval \<Rightarrow> failure + jsval \<times> jsval \<times> jsval" where
  "disambiguate resolved defaultMethod =
     (let r0 = at_index resolved 0; r1 = at_index resolved 1
      in if length resolved = 1 then
           Inr (if \<not> isNil r0 then r0 else JObj [], JNull, JNull)
         else if length resolved = 2 then
           (let config = (if \<not> isNil r1 then r1 else JObj [])
            in case get_default config ''method'' defaultMethod of
                 JStr m \<Rightarrow>
                   (let method = toLower m
                    in if \<not> isNil r0 then
                         (if method = ''put'' \<or> method = ''post'' \<or> method = ''patch''
                          then Inr (config, r0, JNull)
                          else Inr (config, JNull, r0))
                       else Inr (config, JNull, JNull))
               | v \<Rightarrow> Inl (toLowerCase_failure v))
         else
           Inr (assign (drop 2 resolved),
                if \<not> isNil r1 then r1 else JNull,
                if \<not> isNil r0 then r0 else JNull))"

text \<open>\<open>_.last(arguments)\<close>: \<open>undefined\<close> for no arguments at all.\<close>

definition defaultMethod :: "jsval list \<Rightarrow> jsval" where
  "defaultMethod arguments = (if arguments = [] then JUndefined else last arguments)"

text \<open>
  \<open>_parseArgs(...arguments)\<close>: the last argument is the default method. The config-object
  arguments are resolved first; the URL is built and the branch taken once they are.
\<close>

definition parseArgs :: "'w host \<Rightarrow> client \<Rightarrow> jsval list \<Rightarrow> failure + jsval" where
  "parseArgs h c arguments =
     (case deepResolve (JArr (configObjectArgs arguments)) of
        Inl r \<Rightarrow> Inl (Rejection (rejection h r))
      | Inr resolvedConfigObjectArgs \<Rightarrow>
          (case buildUrl h c (resolveUrlArgs arguments) of
             Inl e \<Rightarrow> Inl e
           | Inr url \<Rightarrow>
               (case disambiguate (elements resolvedConfigObjectArgs) (defaultMethod arguments) of
                  Inl e \<Rightarrow> Inl e
                | Inr (config, data, params) \<Rightarrow>
                    Inr (defaults config
                           [(''url'', JStr url), (''method'', defaultMethod arguments),
                            (''data'', data), (''params'', params)]))))"

section \<open>Form-data serializer\<close>

text \<open>
  The \<open>path\<close> of the serializer is a string, or a number where \<open>_.each\<close> walks an object
  by index: \<open>_.isEmpty\<close> holds of the empty string and of every number, and a key is
  appended to the \<open>FormData\<close> as its text.
\<close>

datatype keypath = Text string | Index nat

fun path_text :: "keypath \<Rightarrow> string" where
  "path_text (Text s) = s"
| "path_text (Index i) = string_of_nat i"

fun path_isEmpty :: "keypath \<Rightarrow> bool" where
  "path_isEmpty (Text s) = (s = [])"
| "path_isEmpty (Index i) = True"

text \<open>The key of an array's elements, \<open>path[]\<close>, and of an object's property, \<open>path['property']\<close>.\<close>

definition element_key :: "keypath \<Rightarrow> keypath" where
  "element_key path = Text (path_text path @ ''[]'')"

definition property_key :: "keypath \<Rightarrow> keypath \<Rightarrow> keypath" where
  "property_key path property =
     (if path_isEmpty path then property
      else Text (path_text path @ ''['' @ [CHR 0x27] @ path_text property @ [CHR 0x27] @ '']''))"

definition append_field :: "(string \<times> jsval) list \<Rightarrow> keypath \<Rightarrow> jsval \<Rightarrow> (string \<times> jsval) list" where
  "append_field fd path v = fd @ [(path_text path, v)]"

text \<open>
  \<open>ApiClient._serializeObjectToFormData(object, formData, path)\<close>. The accumulator is the
  list of fields appended to the \<open>FormData\<close> so far; \<open>formData.append(key, value)\<close> adds one
  at the end. \<open>serialize_elements\<close> and \<open>serialize_properties\<close> hold the recursive calls
  for the elements of an array and for the values of an object's properties; the two
  \<open>_.each\<close> loops run them in order. An index without a property has the value
  \<open>undefined\<close>, for which the serializer returns the \<open>FormData\<close> as it is. The fields are
  kept as they are passed to \<open>append\<close>; what the form-data library makes of a value that
  is no string or number is its own affair.
\<close>

fun serialize :: "jsval \<Rightarrow> (string \<times> jsval) list \<Rightarrow> keypath \<Rightarrow> (string \<times> jsval) list"
  and serialize_elements :: "jsval list \<Rightarrow> ((string \<times> jsval) list \<Rightarrow> keypath \<Rightarrow> (string \<times> jsval) list) list"
  and serialize_properties :: "(string \<times> jsval) list
         \<Rightarrow> (string \<times> ((string \<times> jsval) list \<Rightarrow> keypath \<Rightarrow> (string \<times> jsval) list)) list"
where
  "serialize JUndefined = (\<lambda>fd path. fd)"
| "serialize (JBool b) = (\<lambda>fd path. append_field fd path (JStr (if b then ''true'' else ''false'')))"
| "serialize (JArr xs) =
     (\<lambda>fd path.
        if xs = [] then append_field fd (element_key path) (JStr [])
        else foldl (\<lambda>acc each. each acc (element_key path)) fd (serialize_elements xs))"
| "serialize (JDate t) = (\<lambda>fd path. append_field fd path (JStr t))"
| "serialize (JObj kvs) =
     (\<lambda>fd path.
        case arrayLikeLength kvs of
          Some n \<Rightarrow>
            foldl (\<lambda>acc i.
                     (case map_of (serialize_properties kvs) (string_of_nat i) of
                        Some each \<Rightarrow> each
                      | None \<Rightarrow> (\<lambda>fd path. fd)) acc (property_key path (Index i)))
              fd [0..<n]
        | None \<Rightarrow>
            foldl (\<lambda>acc (property, each). each acc (property_key path (Text property)))
              fd (serialize_properties kvs))"
| "serialize JNull = (\<lambda>fd path. append_field fd path JNull)"
| "serialize (JNum n) = (\<lambda>fd path. append_field fd path (JNum n))"
| "serialize (JStr s) = (\<lambda>fd path. append_field fd path (JStr s))"
| "serialize (JFormData es) = (\<lambda>fd path. append_field fd path (JFormData es))"
| "serialize (JFun i ps) = (\<lambda>fd path. append_field fd path (JFun i ps))"
| "serialize (JPromise v) = (\<lambda>fd path. append_field fd path (JPromise v))"
| "serialize (JRejected v) = (\<lambda>fd path. append_field fd path (JRejected v))"
| "serialize_elements [] = []"
| "serialize_elements (x # xs) = serialize x # serialize_elements xs"
| "serialize_properties [] = []"
| "serialize_properties ((property, v) # kvs) = (property, serialize v) # serialize_properties kvs"

text \<open>The call with the defaults of the missing arguments: a new \<open>FormData\<close>, the empty path.\<close>

definition serializeObjectToFormData :: "jsval \<Rightarrow> jsval" where
  "serializeObjectToFormData object = JFormData (serialize object [] (Text []))"

section \<open>Request executor\<close>

text \<open>
  The content-type lookup of \<open>_request\<close>: the first header name that lower-cases to
  \<open>content-type\<close> is looked up; when there is none, \<open>_.find\<close> returns \<open>undefined\<close> and
  \<open>_.get(config, ['headers', undefined])\<close> reads the property named \<open>undefined\<close>.
\<close>

definition contentTypeHeaderKey :: "jsval \<Rightarrow> string option" where
  "contentTypeHeaderKey config =
     find (\<lambda>key. toLower key = ''content-type'') (keys (get config ''headers''))"

definition contentTypeHeader :: "jsval \<Rightarrow> jsval" where
  "contentTypeHeader config =
     (case contentTypeHeaderKey config of
        Some key \<Rightarrow> get (get config ''headers'') key
      | None \<Rightarrow> get (get config ''headers'') ''undefined'')"

text \<open>
  \<open>data.getHeaders()\<close> of a \<open>FormData\<close>: the one header that declares its boundary; and
  \<open>_.merge({}, headers, formDataHeaders)\<close>, where every value of the second source is a
  string and so overwrites.
\<close>

definition getHeaders :: "'w host \<Rightarrow> jsval \<Rightarrow> (string \<times> jsval) list" where
  "getHeaders h data = [(''content-type'', JStr (''multipart/form-data; boundary='' @ getBoundary h data))]"

definition merge_headers :: "jsval \<Rightarrow> (string \<times> jsval) list \<Rightarrow> jsval" where
  "merge_headers headers formDataHeaders =
     JObj (foldl (\<lambda>acc (k, v). put k v acc) [] (entries headers @ formDataHeaders))"

text \<open>The multipart step of \<open>_request\<close>, between the argument parser and the authenticator.\<close>

definition formDataStep :: "'w host \<Rightarrow> jsval \<Rightarrow> jsval" where
  "formDataStep h config =
     (let data = get config ''data''
      in if contentTypeHeader config = JStr ''multipart/form-data'' \<and> \<not> isNil data then
           (let data' = (if \<not> isFormData data then serializeObjectToFormData data else data);
                config' = (if \<not> isFormData data then set_key config ''data'' data' else config)
            in set_key config' ''headers''
                 (merge_headers (get_default config' ''headers'' (JObj [])) (getHeaders h data')))
         else config)"

text \<open>Calling \<open>paginationCallback(responseData, config)\<close>; a value that is no function throws.\<close>

definition call_paginationCallback ::
  "'w host \<Rightarrow> jsval \<Rightarrow> jsval \<Rightarrow> jsval \<Rightarrow> 'w \<Rightarrow> (failure + jsval \<times> jsval) \<times> 'w" where
  "call_paginationCallback h paginationCallback responseData config w =
     (case paginationCallback of
        JFun i _ \<Rightarrow> paginationCallback_call h i responseData config w
      | _ \<Rightarrow> (Inl TypeError, w))"

text \<open>
  The inner function \<open>paginationRequest(config)\<close>. It requests \<open>config\<close>, appends the
  response data, asks the callback for \<open>nextConfig\<close> and, when that is not nil, calls
  itself with \<open>config\<close> again. Nothing bounds the number of rounds: the first argument is
  the number of requests allowed, and \<open>None\<close> as outcome means that they did not suffice.
  The list of configs handed to the transport so far is returned in every case.
\<close>

fun paginationRequest ::
  "nat \<Rightarrow> 'w host \<Rightarrow> jsval \<Rightarrow> jsval \<Rightarrow> jsval list \<Rightarrow> jsval list \<Rightarrow> 'w
     \<Rightarrow> (failure + jsval list) option \<times> jsval list \<times> 'w" where
  "paginationRequest 0 h paginationCallback config responseDataArray issued w = (None, issued, w)"
| "paginationRequest (Suc n) h paginationCallback config responseDataArray issued w =
     (case transport h config w of
        (Inl e, w1) \<Rightarrow> (Some (Inl e), issued @ [config], w1)
      | (Inr paginationResponse, w1) \<Rightarrow>
          (let paginationResponseData = get paginationResponse ''data'';
               responseDataArray' = responseDataArray @ [paginationResponseData]
           in case call_paginationCallback h paginationCallback paginationResponseData config w1 of
                (Inl e, w2) \<Rightarrow> (Some (Inl e), issued @ [config], w2)
              | (Inr (nextConfig, config'), w2) \<Rightarrow>
                  if \<not> isNil nextConfig
                  then paginationRequest n h paginationCallback config' responseDataArray'
                         (issued @ [config]) w2
                  else (Some (Inr responseDataArray'), issued @ [config], w2)))"

text \<open>
  \<open>_request(...arguments)\<close>: the outcome of the returned future, the configs handed to the
  transport in order, and the state of the world afterwards. The first argument bounds the
  follow-up requests of a pagination.
\<close>

definition request ::
  "nat \<Rightarrow> 'w host \<Rightarrow> client \<Rightarrow> jsval list \<Rightarrow> 'w \<Rightarrow> (failure + jsval) option \<times> jsval list \<times> 'w" where
  "request fuel h c arguments w =
     (case parseArgs h c arguments of
        Inl e \<Rightarrow> (Some (Inl e), [], w)
      | Inr parsed \<Rightarrow>
          (case authenticate h c (formDataStep h parsed) w of
             (Inl e, w1) \<Rightarrow> (Some (Inl e), [], w1)
           | (Inr config, w1) \<Rightarrow>
               (case transport h config w1 of
                  (Inl e, w2) \<Rightarrow> (Some (Inl e), [config], w2)
                | (Inr response, w2) \<Rightarrow>
                    (let responseData = get response ''data'';
                         paginationCallback = get config ''paginationCallback''
                     in if \<not> isNil paginationCallback then
                          (case call_paginationCallback h paginationCallback responseData config w2 of
                             (Inl e, w3) \<Rightarrow> (Some (Inl e), [config], w3)
                           | (Inr (nextConfig, _), w3) \<Rightarrow>
                               if isNil nextConfig
                               then (Some (Inr (JArr [responseData])), [config], w3)
                               else (case paginationRequest fuel h paginationCallback nextConfig
                                            [responseData] [config] w3 of
                                       (r, issued, w4) \<Rightarrow> (map_option (map_sum id JArr) r, issued, w4)))
                        else (Some (Inr responseData), [config], w2)))))"

text \<open>The verb wrappers append their method to the arguments.\<close>

definition get_request :: "nat \<Rightarrow> 'w host \<Rightarrow> client \<Rightarrow> jsval list \<Rightarrow> 'w
    \<Rightarrow> (failure + jsval) option \<times> jsval list \<times> 'w" where
  "get_request fuel h c arguments w = request fuel h c (arguments @ [JStr ''get'']) w"

definition post_request :: "nat \<Rightarrow> 'w host \<Rightarrow> client \<Rightarrow> jsval list \<Rightarrow> 'w
    \<Rightarrow> (failure + jsval) option \<times> jsval list \<times> 'w" where
  "post_request fuel h c arguments w = request fuel h c (arguments @ [JStr ''post'']) w"

definition put_request :: "nat \<Rightarrow> 'w host \<Rightarrow> client \<Rightarrow> jsval list \<Rightarrow> 'w
    \<Rightarrow> (failure + jsval) option \<times> jsval list \<times> 'w" where
  "put_request fuel h c arguments w = request fuel h c (arguments @ [JStr ''put'']) w"

definition delete_request :: "nat \<Rightarrow> 'w host \<Rightarrow> client \<Rightarrow> jsval list \<Rightarrow> 'w
    \<Rightarrow> (failure + jsval) option \<times> jsval list \<times> 'w" where
  "delete_request fuel h c arguments w = request fuel h c (arguments @ [JStr ''delete'']) w"

section \<open>EntityCrudApi\<close>

record entityCrudApi =
  apiClient :: client
  entityUrlBasePathname :: jsval

definition resolveUrlSlug :: "entityCrudApi \<Rightarrow> jsval \<Rightarrow> jsval" where
  "resolveUrlSlug e ident =
     (if isNil ident then JArr [entityUrlBasePathname e, ident] else JArr [entityUrlBasePathname e])"

definition list_entities :: "nat \<Rightarrow> 'w host \<Rightarrow> entityCrudApi \<Rightarrow> jsval \<Rightarrow> jsval \<Rightarrow> 'w
    \<Rightarrow> (failure + jsval) option \<times> jsval list \<times> 'w" where
  "list_entities fuel h e params config w =
     get_request fuel h (apiClient e) [resolveUrlSlug e JUndefined, params, config] w"

definition create :: "nat \<Rightarrow> 'w host \<Rightarrow> entityCrudApi \<Rightarrow> jsval \<Rightarrow> jsval \<Rightarrow> 'w
    \<Rightarrow> (failure + jsval) option \<times> jsval list \<times> 'w" where
  "create fuel h e data config w =
     post_request fuel h (apiClient e) [resolveUrlSlug e JUndefined, data, config] w"

definition read :: "nat \<Rightarrow> 'w host \<Rightarrow> entityCrudApi \<Rightarrow> jsval \<Rightarrow> jsval \<Rightarrow> jsval \<Rightarrow> 'w
    \<Rightarrow> (failure + jsval) option \<times> jsval list \<times> 'w" where
  "read fuel h e ident params config w =
     get_request fuel h (apiClient e) [resolveUrlSlug e ident, params, config] w"

definition update :: "nat \<Rightarrow> 'w host \<Rightarrow> entityCrudApi \<Rightarrow> jsval \<Rightarrow> jsval \<Rightarrow> jsval \<Rightarrow> 'w
    \<Rightarrow> (failure + jsval) option \<times> jsval list \<times> 'w" where
  "update fuel h e ident data config w =
     put_request fuel h (apiClient e) [resolveUrlSlug e ident, data, config] w"

definition delete :: "nat \<Rightarrow> 'w host \<Rightarrow> entityCrudApi \<Rightarrow> jsval \<Rightarrow> jsval \<Rightarrow> jsval \<Rightarrow> 'w
    \<Rightarrow> (failure + jsval) option \<times> jsval list \<times> 'w" where
  "delete fuel h e ident params config w =
     delete_request fuel h (apiClient e) [resolveUrlSlug e ident, params, config] w"

section \<open>Notions used in the statements\<close>



text \<open>
  The config object that \<open>_parseArgs\<close> completes, by the number of resolved config-object
  arguments: the only one, the second of two, or the later ones merged.
\<close>

definition selected_config :: "jsval list \<Rightarrow> jsval" where
  "selected_config rs =
     (if length rs = 1 then (if isNil (rs ! 0) then JObj [] else rs ! 0)
      else if length rs = 2 then (if isNil (rs ! 1) then JObj [] else rs ! 1)
      else assign (drop 2 rs))"

section \<open>A concrete environment\<close>

text \<open>
  A host with the modelled URL parser, a transport that answers every request with its
  query parameters as response data, an authentication callback that marks the config and
  counts its invocations in the state of the world, and a pagination callback that asks
  for the following page up to page 3. Of several rejected promises the last one waited
  for settles first.
\<close>

definition next_page :: "jsval \<Rightarrow> jsval" where
  "next_page config =
     (case get (get config ''params'') ''page'' of
        JNum n \<Rightarrow>
          if n < 3 then set_key config ''params'' (JObj [(''page'', JNum (n + 1))]) else JUndefined
      | _ \<Rightarrow> JUndefined)"

definition demo_host :: "nat host" where
  "demo_host =
     \<lparr>new_URL = whatwg_new_URL,
      transport = (\<lambda>config w. (Inr (JObj [(''data'', get config ''params'')]), w)),
      getBoundary = (\<lambda>data. ''boundary''),
      authCallback_call = (\<lambda>i config w. (Inr (set_key config ''auth'' (JStr ''callback'')), Suc w)),
      paginationCallback_call = (\<lambda>i responseData config w. (Inr (next_page config, config), w)),
      settles_first = (\<lambda>reasons. length reasons - 1)\<rparr>"

definition demo_client :: client where
  "demo_client =
     \<lparr>c_hostname = JStr ''host'', c_port = JNum 443, c_protocol = JStr ''https:'',
      c_basePath = JStr ''/api/'', c_authCallback = JUndefined, c_credentials = JObj []\<rparr>"

definition page_config :: "int \<Rightarrow> jsval" where
  "page_config n =
     JObj [(''params'', JObj [(''page'', JNum n)]), (''paginationCallback'', JFun 0 []),
           (''url'', JStr ''https://host/api/items''), (''method'', JStr ''get''), (''data'', JNull)]"

text \<open>Calls and configs for the examples below.\<close>

definition paged_call :: "jsval list" where
  "paged_call =
     [JStr ''items'',
      JObj [(''params'', JObj [(''page'', JNum 1)]), (''paginationCallback'', JFun 0 [])],
      JStr ''get'']"

definition post_config :: jsval where
  "post_config = JObj [(''method'', JStr ''POST'')]"

definition single_config_call :: "jsval list" where
  "single_config_call = [JStr ''widgets'', post_config, JStr ''get'']"

definition two_config_call :: "jsval list" where
  "two_config_call = [JStr ''widgets'', JObj [(''y'', JNum 2)], post_config, JStr ''get'']"

definition explicit_data_call :: "jsval list" where
  "explicit_data_call =
     [JStr ''widgets'', JObj [(''y'', JNum 2)],
      JObj [(''method'', JStr ''post''), (''data'', JObj [(''x'', JNum 1)])], JStr ''get'']"

definition nil_config_call :: "jsval list" where
  "nil_config_call = [JStr ''widgets'', JNull, JStr ''get'']"

definition undefined_method_call :: "jsval list" where
  "undefined_method_call = [JStr ''widgets'', JObj [(''method'', JUndefined)], JStr ''get'']"



definition multipart_config :: jsval where
  "multipart_config =
     JObj [(''headers'', JObj [(''Content-Type'', JStr ''multipart/form-data'')]),
           (''data'', JObj [(''a'', JArr [])])]"

definition mixed_case_config :: jsval where
  "mixed_case_config =
     JObj [(''headers'', JObj [(''Content-Type'', JStr ''Multipart/Form-Data'')]),
           (''data'', JObj [(''a'', JArr [])])]"

section \<open>Evaluation lemmas\<close>

lemmas url_eval =
  whatwg_new_URL_def whatwg_URL_def basic_parse_def parse_absolute_def parse_relative_def
  is_scheme_def is_alpha_def is_digit_def is_path_char_def default_port_def toLower_def
  to_lower_char_def parse_port_def nat_of_digits_def digit_value_def is_domain_def
  is_label_def serialize_url_def Let_def

lemmas parse_eval =
  parseArgs_def configObjectArgs_def resolveUrlArgs_def defaultMethod_def takeRightWhile_def
  disambiguate_def at_index_def defaults_def get_default_def assign_def toLower_def
  to_lower_char_def Let_def

lemmas request_eval =
  request_def formDataStep_def contentTypeHeader_def contentTypeHeaderKey_def keys_def
  authenticate_def call_paginationCallback_def set_path_def set_property_def getHeaders_def
  merge_headers_def
  serializeObjectToFormData_def Let_def

lemma api_base:
  "whatwg_new_URL ''/api/'' (Some ''https://host:443'') =
     Inr \<lparr>protocol = ''https:'', hostname = ''host'', port = [], pathname = ''/api/'',
          href = ''https://host/api/''\<rparr>"
  by (simp add: url_eval)

lemma api_widgets_42:
  "whatwg_new_URL ''./widgets/42'' (Some ''https://host/api/'') =
     Inr \<lparr>protocol = ''https:'', hostname = ''host'', port = [], pathname = ''/api/widgets/42'',
          href = ''https://host/api/widgets/42''\<rparr>"
  by (simp add: url_eval)

lemma api_widgets:
  "whatwg_new_URL ''./widgets'' (Some ''https://host/api/'') =
     Inr \<lparr>protocol = ''https:'', hostname = ''host'', port = [], pathname = ''/api/widgets'',
          href = ''https://host/api/widgets''\<rparr>"
  by (simp add: url_eval)

lemma api_items:
  "whatwg_new_URL ''./items'' (Some ''https://host/api/'') =
     Inr \<lparr>protocol = ''https:'', hostname = ''host'', port = [], pathname = ''/api/items'',
          href = ''https://host/api/items''\<rparr>"
  by (simp add: url_eval)

lemma api_base_url:
  "whatwg_new_URL ''https://host:443/api/'' None =
     Inr \<lparr>protocol = ''https:'', hostname = ''host'', port = [], pathname = ''/api/'',
          href = ''https://host/api/''\<rparr>"
  by (simp add: url_eval)

lemma api_base_empty_port:
  "whatwg_new_URL ''/api/'' (Some ''https://host:'') =
     Inr \<lparr>protocol = ''https:'', hostname = ''host'', port = [], pathname = ''/api/'',
          href = ''https://host/api/''\<rparr>"
  by (simp add: url_eval)

lemma demo_url_widgets_42:
  "buildUrl demo_host demo_client [JArr [JStr ''widgets'', JStr ''42'']] = Inr ''https://host/api/widgets/42''"
  by (simp add: buildUrl_def demo_host_def demo_client_def join_def string_of_int_def
      digit_char_def api_base api_widgets_42)

lemma demo_url_widgets:
  "buildUrl demo_host demo_client [JArr [JStr ''widgets'']] = Inr ''https://host/api/widgets''"
  by (simp add: buildUrl_def demo_host_def demo_client_def join_def string_of_int_def
      digit_char_def api_base api_widgets)

lemma demo_url_items:
  "buildUrl demo_host demo_client [JStr ''items''] = Inr ''https://host/api/items''"
  by (simp add: buildUrl_def demo_host_def demo_client_def join_def string_of_int_def
      digit_char_def api_base api_items)

lemma demo_url_widgets_slug:
  "buildUrl demo_host demo_client [JStr ''widgets''] = Inr ''https://host/api/widgets''"
  by (simp add: buildUrl_def demo_host_def demo_client_def join_def string_of_int_def
      digit_char_def api_base api_widgets)

section \<open>Form-data serializer: the documented example\<close>

text \<open>
  C7. Serializing \<open>{a: [1, 2], b: {c: true}}\<close> from the empty key path into a new
  \<open>FormData\<close> appends exactly three fields, in this order: \<open>a[]\<close> with 1, \<open>a[]\<close> with 2
  and \<open>b['c']\<close> with the string \<open>true\<close>.
\<close>

theorem serialize_documented_example:
  "serializeObjectToFormData
     (JObj [(''a'', JArr [JNum 1, JNum 2]), (''b'', JObj [(''c'', JBool True)])]) =
   JFormData [(''a[]'', JNum 1), (''a[]'', JNum 2), (''b['c']'', JStr ''true'')]"
  by (simp add: serializeObjectToFormData_def arrayLikeLength_def property_key_def
      element_key_def append_field_def)

section \<open>URL builder: the documented example\<close>

text \<open>
  C8, as the specification states it: with protocol https, hostname \<open>host\<close>, port 443 and
  base path \<open>/api/\<close>, the segments \<open>["widgets", "42"]\<close> would give
  \<open>https://host:443/api/widgets/42\<close>. They do not: 443 is the default port of https, and
  the URL parser drops a default port.
\<close>

theorem buildUrl_keeps_no_default_port:
  "buildUrl demo_host demo_client [JArr [JStr ''widgets'', JStr ''42'']]
     \<noteq> Inr ''https://host:443/api/widgets/42''"
  by (simp add: demo_url_widgets_42)

text \<open>
  C8, amended: for such a client, under the modelled URL parser and whatever its
  credentials and the rest of its environment, building a URL from the segments
  \<open>["widgets", "42"]\<close>, given as one array or as two arguments, returns exactly
  \<open>https://host/api/widgets/42\<close>; so it does for the client constructed from the base
  URL \<open>https://host:443/api/\<close>.
\<close>

theorem buildUrl_documented_example:
  "buildUrl (h\<lparr>new_URL := whatwg_new_URL\<rparr>)
     (c\<lparr>c_hostname := JStr ''host'', c_port := JNum 443, c_protocol := JStr ''https:'',
        c_basePath := JStr ''/api/''\<rparr>)
     [JArr [JStr ''widgets'', JStr ''42'']] = Inr ''https://host/api/widgets/42''
   \<and> buildUrl (h\<lparr>new_URL := whatwg_new_URL\<rparr>)
     (c\<lparr>c_hostname := JStr ''host'', c_port := JNum 443, c_protocol := JStr ''https:'',
        c_basePath := JStr ''/api/''\<rparr>)
     [JStr ''widgets'', JStr ''42''] = Inr ''https://host/api/widgets/42''
   \<and> map_sum id (\<lambda>built. buildUrl (h\<lparr>new_URL := whatwg_new_URL\<rparr>) built
                            [JArr [JStr ''widgets'', JStr ''42'']])
       (construct (h\<lparr>new_URL := whatwg_new_URL\<rparr>)
          (JObj [(''baseUrl'', JStr ''https://host:443/api/'')])) =
     Inr (Inr ''https://host/api/widgets/42'')"
  by (simp add: buildUrl_def construct_def get_default_def join_def string_of_int_def
      digit_char_def api_base api_base_url api_base_empty_port api_widgets_42)

section \<open>Authenticator: a client with a callback\<close>

text \<open>
  C1 says that a client configured with an authentication callback invokes it and skips
  its own credential logic. The guard is \<open>!_.isEmpty(this._authCallback)\<close>, and a function
  without enumerable properties of its own is empty for lodash. At a client constructed
  with such a callback and a token, the callback is not invoked (the count of invocations
  stays 0, the config carries no mark of it) and the bearer header is set.
\<close>

theorem authenticate_ignores_plain_callback:
  "construct demo_host
     (JObj [(''hostname'', JStr ''host''), (''basePath'', JStr ''/api/''),
            (''authCallback'', JFun 1 []), (''token'', JStr ''secret'')]) =
     Inr (demo_client\<lparr>c_authCallback := JFun 1 [],
                       c_credentials := JObj [(''token'', JStr ''secret'')]\<rparr>)
   \<and> authenticate demo_host
       (demo_client\<lparr>c_authCallback := JFun 1 [],
                     c_credentials := JObj [(''token'', JStr ''secret'')]\<rparr>)
       (JObj []) 0 =
     (Inr (JObj [(''headers'', JObj [(''Authorization'', JStr ''Bearer secret'')])]), 0)"
  by (simp add: construct_def authenticate_def demo_client_def set_path_def set_property_def
      isIndex_def is_digit_def get_default_def)

section \<open>CRUD facade: reading an entity\<close>

text \<open>
  C2 says that \<open>read(id, params, config)\<close> requests a URL that ends in the id.
  \<open>_resolveUrlSlug\<close> tests \<open>_.isNil(id)\<close> with its branches exchanged: for the resource
  path \<open>widgets\<close> and the id 7 the one request issued is a GET of
  \<open>https://host/api/widgets\<close>.
\<close>

theorem read_drops_the_id:
  "read 0 demo_host \<lparr>apiClient = demo_client, entityUrlBasePathname = JStr ''widgets''\<rparr>
     (JNum 7) JUndefined JUndefined 0 =
   (Some (Inr JNull),
    [JObj [(''url'', JStr ''https://host/api/widgets''), (''method'', JStr ''get''),
           (''data'', JNull), (''params'', JNull)]],
    0)"
proof -
  have parsed:
    "parseArgs demo_host demo_client [JArr [JStr ''widgets''], JUndefined, JUndefined, JStr ''get''] =
       Inr (JObj [(''url'', JStr ''https://host/api/widgets''), (''method'', JStr ''get''),
                  (''data'', JNull), (''params'', JNull)])"
    by (simp add: parse_eval demo_url_widgets)
  show ?thesis
    by (simp add: read_def get_request_def resolveUrlSlug_def request_def parsed)
      (simp add: request_eval demo_client_def demo_host_def)
qed

section \<open>Pagination: which config a follow-up request uses\<close>

lemma page_two_step:
  "paginationRequest (Suc n) demo_host (JFun 0 []) (page_config 2) acc issued 0 =
     paginationRequest n demo_host (JFun 0 []) (page_config 2)
       (acc @ [JObj [(''page'', JNum 2)]]) (issued @ [page_config 2]) 0"
  by (simp add: demo_host_def page_config_def next_page_def call_paginationCallback_def)

lemma page_two_forever:
  "fst (paginationRequest n demo_host (JFun 0 []) (page_config 2) acc issued 0) = None"
  by (induction n arbitrary: acc issued) (simp_all only: page_two_step, simp)

lemma paged_call_parsed: "parseArgs demo_host demo_client paged_call = Inr (page_config 1)"
  by (simp add: paged_call_def parse_eval demo_url_items page_config_def)

lemma paged_call_request:
  "request fuel demo_host demo_client paged_call 0 =
     (case paginationRequest fuel demo_host (JFun 0 []) (page_config 2)
             [JObj [(''page'', JNum 1)]] [page_config 1] 0 of
        (r, issued, w4) \<Rightarrow> (map_option (map_sum id JArr) r, issued, w4))"
  by (simp add: request_def paged_call_parsed)
    (simp add: request_eval page_config_def demo_client_def demo_host_def next_page_def)

text \<open>
  C3 says that every request after the first uses the config that the continuation
  returned for the response before it. \<open>paginationRequest\<close> calls itself with \<open>config\<close>,
  not with \<open>nextConfig\<close>: starting at page 1 with a continuation that returns the config
  of the following page, the requests issued are those of page 1, page 2 and page 2 again,
  although the continuation returned the config of page 3 for the response to page 2.
  Whatever the number of requests allowed, the call does not come to an end.
\<close>

theorem pagination_repeats_the_config:
  "request 2 demo_host demo_client paged_call 0 =
     (None, [page_config 1, page_config 2, page_config 2], 0)
   \<and> paginationCallback_call demo_host 0 (JObj [(''page'', JNum 2)]) (page_config 2) 0 =
     (Inr (page_config 3, page_config 2), 0)
   \<and> (\<forall>fuel. fst (request fuel demo_host demo_client paged_call 0) = None)"
proof -
  have issued: "request 2 demo_host demo_client paged_call 0 =
      (None, [page_config 1, page_config 2, page_config 2], 0)"
    by (simp add: paged_call_request numeral_2_eq_2 page_two_step del: paginationRequest.simps(2))
  have returned: "paginationCallback_call demo_host 0 (JObj [(''page'', JNum 2)]) (page_config 2) 0 =
      (Inr (page_config 3, page_config 2), 0)"
    by (simp add: demo_host_def page_config_def next_page_def)
  have "fst (request fuel demo_host demo_client paged_call 0) = None" for fuel
    using page_two_forever [of fuel "[JObj [(''page'', JNum 1)]]" "[page_config 1]"]
    by (auto simp: paged_call_request split: prod.splits)
  with issued returned show ?thesis
    by blast
qed

section \<open>Facts about objects, the resolver and the request pipeline\<close>

lemma isUndefined_iff: "isUndefined v \<longleftrightarrow> v = JUndefined"
  by (cases v) simp_all

lemma map_of_put: "map_of (put k v kvs) k' = (if k' = k then Some v else map_of kvs k')"
  by (induction kvs) auto

lemma get_set_key:
  "get (set_key obj k v) k' = (if k' = k \<and> hasProperties obj then v else get obj k')"
  by (cases obj) (simp_all add: map_of_put)

lemma hasProperties_set_key: "hasProperties (set_key obj k v) = hasProperties obj"
  by (cases obj) simp_all

lemma get_defaults:
  "hasProperties obj \<Longrightarrow> distinct (map fst source) \<Longrightarrow>
   get (defaults obj source) k =
     (if get obj k = JUndefined
      then (case map_of source k of Some v \<Rightarrow> v | None \<Rightarrow> JUndefined)
      else get obj k)"
proof (induction source arbitrary: obj)
  case Nil
  then show ?case by (simp add: defaults_def)
next
  case (Cons kv source)
  obtain k1 v1 where kv: "kv = (k1, v1)" by (cases kv)
  let ?obj1 = "if isUndefined (get obj k1) then set_key obj k1 v1 else obj"
  have step: "defaults obj (kv # source) = defaults ?obj1 source"
    by (simp add: defaults_def kv)
  have obj1: "hasProperties ?obj1"
    using Cons.prems(1) by (simp add: hasProperties_set_key)
  have dist: "distinct (map fst source)" and fresh: "k1 \<notin> fst ` set source"
    using Cons.prems(2) by (simp_all add: kv)
  have none: "map_of source k1 = None"
    using fresh by (simp add: map_of_eq_None_iff)
  show ?case
    unfolding step Cons.IH [OF obj1 dist]
    using Cons.prems(1) none
    by (auto simp: kv get_set_key isUndefined_iff)
qed

lemma set_takeRightWhile: "x \<in> set (takeRightWhile P xs) \<Longrightarrow> P x"
  unfolding takeRightWhile_def by (auto dest: set_takeWhileD)

lemma deepResolve_item_plain:
  "isPlainObject a \<or> isNil a \<Longrightarrow> deepResolve_item a = deepResolve a"
  by (cases a) simp_all

lemma deepResolve_plain_shape:
  "isPlainObject a \<or> isNil a \<Longrightarrow> deepResolve a = Inr r \<Longrightarrow> (isPlainObject r \<or> isNil r)"
  by (cases a) (auto split: sum.splits)

lemma deepResolve_object_shape:
  "isPlainObject a \<Longrightarrow> deepResolve a = Inr r \<Longrightarrow> isPlainObject r"
  by (cases a) (auto split: sum.splits)

lemma plain_hasProperties: "isPlainObject r \<Longrightarrow> hasProperties r"
  by (cases r) simp_all

lemma configObjectArgs_shape: "a \<in> set (configObjectArgs arguments) \<Longrightarrow> isPlainObject a \<or> isNil a"
  unfolding configObjectArgs_def by (rule set_takeRightWhile)

lemma config_or_empty_hasProperties:
  "isPlainObject r \<or> isNil r \<Longrightarrow> hasProperties (if isNil r then JObj [] else r)"
  by (cases r) simp_all


lemma disambiguate_two:
  "disambiguate [r0, r1] dm =
     (case get_default (if isNil r1 then JObj [] else r1) ''method'' dm of
        JStr m \<Rightarrow>
          Inr (if isNil r1 then JObj [] else r1,
               if toLower m \<in> {''put'', ''post'', ''patch''} \<and> \<not> isNil r0 then r0 else JNull,
               if toLower m \<notin> {''put'', ''post'', ''patch''} \<and> \<not> isNil r0 then r0 else JNull)
      | v \<Rightarrow> Inl (toLowerCase_failure v))"
  by (simp add: disambiguate_def at_index_def Let_def split: jsval.splits)



lemma parseArgs_resolved:
  assumes "deepResolve_map (configObjectArgs arguments) = Inr rs"
    and "buildUrl h c (resolveUrlArgs arguments) = Inr url"
  shows "parseArgs h c arguments =
     (case disambiguate rs (defaultMethod arguments) of
        Inl e \<Rightarrow> Inl e
      | Inr (config, data, params) \<Rightarrow>
          Inr (defaults config
                 [(''url'', JStr url), (''method'', defaultMethod arguments),
                  (''data'', data), (''params'', params)]))"
  using assms by (simp add: parseArgs_def)

lemma parseArgs_Inr_parts:
  assumes "parseArgs h c arguments = Inr config"
  shows "\<exists>rs url. deepResolve_map (configObjectArgs arguments) = Inr rs \<and>
           buildUrl h c (resolveUrlArgs arguments) = Inr url"
  using assms by (simp add: parseArgs_def split: sum.splits)

lemma get_defaults4:
  assumes props: "hasProperties cfg"
  shows "get (defaults cfg [(''url'', u), (''method'', m), (''data'', d), (''params'', p)]) k =
     (if get cfg k \<noteq> JUndefined then get cfg k
      else if k = ''url'' then u
      else if k = ''method'' then m
      else if k = ''data'' then d
      else if k = ''params'' then p
      else JUndefined)"
proof -
  have dist: "distinct (map fst [(''url'', u), (''method'', m), (''data'', d), (''params'', p)])"
    by simp
  show ?thesis
    unfolding get_defaults [OF props dist] by simp
qed

lemma await_both_Inr:
  "await_both x y f = Inr z \<longleftrightarrow> (\<exists>u v. x = Inr u \<and> y = Inr v \<and> z = f u v)"
  by (cases x; cases y) auto



lemma deepResolve_map_two:
  assumes "isPlainObject a0 \<or> isNil a0" and "isPlainObject a1 \<or> isNil a1"
    and "deepResolve_map [a0, a1] = Inr rs"
  shows "\<exists>r0 r1. deepResolve a0 = Inr r0 \<and> deepResolve a1 = Inr r1 \<and> rs = [r0, r1]"
  using assms(3)
  by (auto simp: deepResolve_item_plain [OF assms(1)] deepResolve_item_plain [OF assms(2)]
      await_both_Inr)




lemma get_without_properties: "\<not> hasProperties obj \<Longrightarrow> get obj k = JUndefined"
  by (cases obj) simp_all

lemma get_set_key_other: "k' \<noteq> k \<Longrightarrow> get (set_key obj k v) k' = get obj k'"
  by (simp add: get_set_key)

lemma get_set_property_other:
  "set_property obj k1 v = Some obj' \<Longrightarrow> k \<noteq> k1 \<Longrightarrow> get obj' k = get obj k"
  by (auto simp: set_property_def get_set_key_other split: if_splits)

lemma get_set_path_other:
  "set_path obj k1 k2 v = Some obj' \<Longrightarrow> k \<noteq> k1 \<Longrightarrow> get obj' k = get obj k"
  by (auto simp: set_path_def Let_def get_set_key_other split: if_splits)

lemma get_set_headers_other:
  "set_headers config hs = Some config' \<Longrightarrow> k \<noteq> ''headers'' \<Longrightarrow> get config' k = get config k"
proof (induction hs arbitrary: config)
  case Nil
  then show ?case by simp
next
  case (Cons hv hs)
  obtain header v where hv: "hv = (header, v)"
    by (cases hv)
  from Cons.prems(1) obtain config1
    where first: "set_path config ''headers'' header v = Some config1"
      and rest: "set_headers config1 hs = Some config'"
    unfolding hv by (auto split: option.splits)
  have "get config' k = get config1 k"
    using rest Cons.prems(2) by (rule Cons.IH)
  also have "\<dots> = get config k"
    using first Cons.prems(2) by (rule get_set_path_other)
  finally show ?case .
qed

lemma written_Inr: "written r = Inr config \<Longrightarrow> r = Some config"
  by (cases r) simp_all

lemma get_formDataStep_other:
  "k \<noteq> ''data'' \<Longrightarrow> k \<noteq> ''headers'' \<Longrightarrow> get (formDataStep h config) k = get config k"
  by (simp add: formDataStep_def Let_def get_set_key_other)

lemma get_authenticate_other:
  assumes "authenticate h c config w = (Inr config', w')"
    and "isEmpty (c_authCallback c)"
    and "k \<noteq> ''headers''" and "k \<noteq> ''auth''"
  shows "get config' k = get config k"
proof -
  have nil: "get (if isNil config then JObj [] else config) k = get config k"
    by (cases config) simp_all
  show ?thesis
    using assms nil
    by (auto simp: authenticate_def Let_def dest!: written_Inr
        dest: get_set_path_other get_set_property_other get_set_headers_other
        split: if_splits option.splits)
qed

lemma paginationRequest_issued:
  "paginationRequest n h cb config acc issued w = (r, issued', w') \<Longrightarrow>
     \<exists>more. issued' = issued @ more"
proof (induction n arbitrary: config acc issued w)
  case 0
  then show ?case by simp
next
  case (Suc n)
  show ?case
  proof (cases "transport h config w")
    case (Pair t w1)
    show ?thesis
    proof (cases t)
      case (Inl e)
      with Suc.prems Pair show ?thesis by auto
    next
      case (Inr resp)
      show ?thesis
      proof (cases "call_paginationCallback h cb (get resp ''data'') config w1")
        case inner: (Pair u w2)
        show ?thesis
        proof (cases u)
          case (Inl e)
          with Suc.prems Pair Inr inner show ?thesis by (auto simp: Let_def)
        next
          case right: (Inr nc)
          obtain nextConfig config' where nc: "nc = (nextConfig, config')" by (cases nc)
          show ?thesis
          proof (cases "isNil nextConfig")
            case True
            with Suc.prems Pair Inr inner right nc show ?thesis by (auto simp: Let_def)
          next
            case False
            with Suc.prems Pair Inr inner right nc
            have "paginationRequest n h cb config' (acc @ [get resp ''data'']) (issued @ [config]) w2
                    = (r, issued', w')"
              by (simp add: Let_def)
            from Suc.IH [OF this] show ?thesis by auto
          qed
        qed
      qed
    qed
  qed
qed

lemma request_first_issued:
  assumes "request fuel h c arguments w = (outcome, issued, w')" and "issued \<noteq> []"
  shows "\<exists>parsed w1. parseArgs h c arguments = Inr parsed \<and>
           authenticate h c (formDataStep h parsed) w = (Inr (hd issued), w1)"
proof (cases "parseArgs h c arguments")
  case (Inl e)
  with assms show ?thesis by (simp add: request_def)
next
  case (Inr parsed)
  show ?thesis
  proof (cases "authenticate h c (formDataStep h parsed) w")
    case (Pair a w1)
    show ?thesis
    proof (cases a)
      case (Inl e)
      with assms Inr Pair show ?thesis by (simp add: request_def)
    next
      case auth: (Inr config)
      have "hd issued = config"
      proof (cases "transport h config w1")
        case tr: (Pair t w2)
        show ?thesis
        proof (cases t)
          case (Inl e)
          with assms Inr Pair auth tr show ?thesis by (auto simp: request_def)
        next
          case resp: (Inr response)
          show ?thesis
          proof (cases "isNil (get config ''paginationCallback'')")
            case True
            with assms Inr Pair auth tr resp show ?thesis by (auto simp: request_def Let_def)
          next
            case False
            show ?thesis
            proof (cases "call_paginationCallback h (get config ''paginationCallback'')
                (get response ''data'') config w2")
              case cb: (Pair u w3)
              show ?thesis
              proof (cases u)
                case (Inl e)
                with assms Inr Pair auth tr resp False cb show ?thesis
                  by (auto simp: request_def Let_def)
              next
                case next_config: (Inr nc)
                obtain nextConfig config' where nc: "nc = (nextConfig, config')" by (cases nc)
                show ?thesis
                proof (cases "isNil nextConfig")
                  case True
                  with assms Inr Pair auth tr resp False cb next_config nc show ?thesis
                    by (auto simp: request_def Let_def)
                next
                  case more: False
                  obtain r issued2 w4 where pr:
                    "paginationRequest fuel h (get config ''paginationCallback'') nextConfig
                       [get response ''data''] [config] w3 = (r, issued2, w4)"
                    by (cases "paginationRequest fuel h (get config ''paginationCallback'') nextConfig
                       [get response ''data''] [config] w3") auto
                  from paginationRequest_issued [OF pr] obtain rest where "issued2 = [config] @ rest"
                    by blast
                  moreover have "issued = issued2"
                    using assms Inr Pair auth tr resp False cb next_config nc more pr
                    by (auto simp: request_def Let_def)
                  ultimately show ?thesis by simp
                qed
              qed
            qed
          qed
        qed
      qed
      with Inr Pair auth show ?thesis by auto
    qed
  qed
qed

lemma deepResolve_map_shape:
  "\<forall>a \<in> set as. isPlainObject a \<or> isNil a \<Longrightarrow> deepResolve_map as = Inr rs \<Longrightarrow>
     (\<forall>r \<in> set rs. isPlainObject r \<or> isNil r)"
proof (induction as arbitrary: rs)
  case Nil
  then show ?case by simp
next
  case (Cons a as)
  have a: "isPlainObject a \<or> isNil a"
    using Cons.prems(1) by simp
  from Cons.prems(2) obtain r0 rs' where r0: "deepResolve a = Inr r0"
    and rs': "deepResolve_map as = Inr rs'" and rs: "rs = r0 # rs'"
    by (auto simp: deepResolve_item_plain [OF a] await_both_Inr)
  have "isPlainObject r0 \<or> isNil r0"
    using a r0 by (rule deepResolve_plain_shape)
  moreover have "\<forall>r \<in> set rs'. isPlainObject r \<or> isNil r"
    using Cons.IH [OF _ rs'] Cons.prems(1) by simp
  ultimately show ?case
    by (simp add: rs)
qed

lemma disambiguate_config:
  "disambiguate rs dm = Inr (cfg, d, p) \<Longrightarrow> cfg = selected_config rs"
  by (auto simp: disambiguate_def selected_config_def at_index_def Let_def
      split: if_splits jsval.splits)

lemma selected_config_hasProperties:
  assumes shape: "\<forall>r \<in> set rs. isPlainObject r \<or> isNil r"
  shows "hasProperties (selected_config rs)"
proof -
  have nth: "hasProperties (if isNil (rs ! i) then JObj [] else rs ! i)" if "i < length rs" for i
  proof -
    have "rs ! i \<in> set rs"
      using that by (rule nth_mem)
    with shape have "isPlainObject (rs ! i) \<or> isNil (rs ! i)"
      by blast
    then show ?thesis
      by (rule config_or_empty_hasProperties)
  qed
  consider (one) "length rs = 1" | (two) "length rs = 2" | (other) "length rs \<noteq> 1" "length rs \<noteq> 2"
    by blast
  then show ?thesis
  proof cases
    case one
    with nth [of 0] show ?thesis by (simp add: selected_config_def)
  next
    case two
    with nth [of 1] show ?thesis by (simp add: selected_config_def)
  next
    case other
    then show ?thesis by (simp add: selected_config_def assign_def)
  qed
qed

lemma contentTypeHeader_found:
  assumes "contentTypeHeaderKey config \<noteq> None \<or>
           get (get config ''headers'') ''undefined'' \<noteq> JStr ''multipart/form-data''"
  shows "(contentTypeHeader config = JStr ''multipart/form-data'') =
         (\<exists>key. contentTypeHeaderKey config = Some key \<and>
                get (get config ''headers'') key = JStr ''multipart/form-data'')"
proof (cases "contentTypeHeaderKey config")
  case None
  with assms show ?thesis
    by (simp add: contentTypeHeader_def)
next
  case (Some key)
  then show ?thesis
    by (simp add: contentTypeHeader_def)
qed

lemma formDataStep_data:
  "get (formDataStep h config) ''data'' =
     (if contentTypeHeader config = JStr ''multipart/form-data'' \<and>
         \<not> isNil (get config ''data'') \<and> \<not> isFormData (get config ''data'')
      then serializeObjectToFormData (get config ''data'')
      else get config ''data'')"
proof (cases "contentTypeHeader config = JStr ''multipart/form-data'' \<and> \<not> isNil (get config ''data'')")
  case False
  then have "formDataStep h config = config"
    by (auto simp: formDataStep_def Let_def)
  with False show ?thesis
    by auto
next
  case True
  then have "get config ''data'' \<noteq> JUndefined"
    by auto
  then have props: "hasProperties config"
    using get_without_properties by blast
  show ?thesis
  proof (cases "isFormData (get config ''data'')")
    case fd: True
    with True have "formDataStep h config =
        set_key config ''headers''
          (merge_headers (get_default config ''headers'' (JObj [])) (getHeaders h (get config ''data'')))"
      by (simp add: formDataStep_def Let_def)
    with fd show ?thesis
      by (simp add: get_set_key_other)
  next
    case nfd: False
    let ?data' = "serializeObjectToFormData (get config ''data'')"
    let ?config' = "set_key config ''data'' ?data'"
    from True nfd have "formDataStep h config =
        set_key ?config' ''headers''
          (merge_headers (get_default ?config' ''headers'' (JObj [])) (getHeaders h ?data'))"
      by (simp add: formDataStep_def Let_def)
    with True nfd props show ?thesis
      by (simp add: get_set_key_other get_set_key)
  qed
qed

section \<open>Argument parser: one config-object argument\<close>

text \<open>
  C6, as the specification states it: with exactly one trailing config-object argument,
  that resolved object becomes the request config, and the computed values fill only the
  keys it does not already set. A nil argument is a config-object argument too: for
  \<open>_parseArgs('widgets', null, 'get')\<close> the resolved argument is \<open>null\<close> and the config is
  a new object holding the computed values. And a key that the object sets to \<open>undefined\<close>
  is filled in as well: \<open>{method: undefined}\<close> comes out with the method \<open>get\<close>.
\<close>

theorem nil_argument_gives_a_new_config:
  "configObjectArgs nil_config_call = [JNull] \<and>
   parseArgs demo_host demo_client nil_config_call =
     Inr (JObj [(''url'', JStr ''https://host/api/widgets''), (''method'', JStr ''get''),
                (''data'', JNull), (''params'', JNull)]) \<and>
   parseArgs demo_host demo_client undefined_method_call =
     Inr (JObj [(''method'', JStr ''get''), (''url'', JStr ''https://host/api/widgets''),
                (''data'', JNull), (''params'', JNull)])"
  by (simp add: nil_config_call_def undefined_method_call_def parse_eval demo_url_widgets_slug)

text \<open>
  C6, amended. When a call has exactly one trailing config-object argument and the parser
  yields a config: the argument as resolved, or an empty object when it is nil, is the
  config that gets completed. Every key whose value in it is not \<open>undefined\<close> keeps that
  value, and only the keys whose value is \<open>undefined\<close> (missing, or stored as such) are
  filled in: \<open>url\<close> with the built URL, \<open>method\<close> with the call's default method, \<open>data\<close>
  and \<open>params\<close> with \<open>null\<close>. No other key appears.
\<close>

theorem parseArgs_single_config:
  assumes one: "configObjectArgs arguments = [a]"
    and ok: "parseArgs h c arguments = Inr config"
  shows "\<exists>r url. deepResolve a = Inr r \<and> buildUrl h c (resolveUrlArgs arguments) = Inr url \<and>
           (\<forall>k. get config k =
              (if get (if isNil r then JObj [] else r) k \<noteq> JUndefined
                 then get (if isNil r then JObj [] else r) k
               else if k = ''url'' then JStr url
               else if k = ''method'' then defaultMethod arguments
               else if k = ''data'' \<or> k = ''params'' then JNull
               else JUndefined))"
proof -
  have shape: "isPlainObject a \<or> isNil a"
    using configObjectArgs_shape [of _ arguments] one by simp
  from parseArgs_Inr_parts [OF ok] obtain rs url
    where rs: "deepResolve_map (configObjectArgs arguments) = Inr rs"
      and url: "buildUrl h c (resolveUrlArgs arguments) = Inr url"
    by blast
  from rs one obtain r where r: "deepResolve a = Inr r" and rs_eq: "rs = [r]"
    by (auto simp: deepResolve_item_plain [OF shape] await_both_Inr)
  let ?cfg = "if isNil r then JObj [] else r"
  have props: "hasProperties ?cfg"
    using deepResolve_plain_shape [OF shape r] by (rule config_or_empty_hasProperties)
  have "disambiguate [r] (defaultMethod arguments) = Inr (?cfg, JNull, JNull)"
    by (simp add: disambiguate_def at_index_def)
  with parseArgs_resolved [OF rs url] ok rs_eq
  have config: "config = defaults ?cfg [(''url'', JStr url), (''method'', defaultMethod arguments),
      (''data'', JNull), (''params'', JNull)]"
    by simp
  have "\<forall>k. get config k =
              (if get ?cfg k \<noteq> JUndefined then get ?cfg k
               else if k = ''url'' then JStr url
               else if k = ''method'' then defaultMethod arguments
               else if k = ''data'' \<or> k = ''params'' then JNull
               else JUndefined)"
    unfolding config get_defaults4 [OF props] by simp
  with r url show ?thesis
    by blast
qed

text \<open>C6 amended, at a call of the \<open>get\<close> wrapper whose config object sets the method \<open>POST\<close>.\<close>

theorem parseArgs_single_config_witness:
  "configObjectArgs single_config_call = [post_config] \<and>
   parseArgs demo_host demo_client single_config_call =
     Inr (JObj [(''method'', JStr ''POST''), (''url'', JStr ''https://host/api/widgets''),
                (''data'', JNull), (''params'', JNull)]) \<and>
   (\<exists>r url. deepResolve post_config = Inr r \<and>
      buildUrl demo_host demo_client (resolveUrlArgs single_config_call) = Inr url \<and>
      (\<forall>k. get (JObj [(''method'', JStr ''POST''), (''url'', JStr ''https://host/api/widgets''),
                       (''data'', JNull), (''params'', JNull)]) k =
         (if get (if isNil r then JObj [] else r) k \<noteq> JUndefined
            then get (if isNil r then JObj [] else r) k
          else if k = ''url'' then JStr url
          else if k = ''method'' then defaultMethod single_config_call
          else if k = ''data'' \<or> k = ''params'' then JNull
          else JUndefined)))"
proof -
  have h1: "configObjectArgs single_config_call = [post_config]"
    by (simp add: single_config_call_def post_config_def configObjectArgs_def takeRightWhile_def)
  have h2: "parseArgs demo_host demo_client single_config_call =
     Inr (JObj [(''method'', JStr ''POST''), (''url'', JStr ''https://host/api/widgets''),
                (''data'', JNull), (''params'', JNull)])"
    by (simp add: single_config_call_def post_config_def parse_eval demo_url_widgets_slug)
  show ?thesis
    by (rule conjI [OF h1 conjI [OF h2 parseArgs_single_config [OF h1 h2]]])
qed

section \<open>Argument parser: two config-object arguments\<close>

text \<open>
  C5, as the specification states it: with two trailing config-object arguments the first
  one is placed as \<open>data\<close> when the method is put, post or patch. With the config
  \<open>{method: 'post', data: {x: 1}}\<close> and the first argument \<open>{y: 2}\<close> the request config
  keeps the \<open>data\<close> it came with, and the first argument is placed nowhere.
\<close>

theorem explicit_data_wins_over_first_argument:
  "parseArgs demo_host demo_client explicit_data_call =
     Inr (JObj [(''method'', JStr ''post''), (''data'', JObj [(''x'', JNum 1)]),
                (''url'', JStr ''https://host/api/widgets''), (''params'', JNull)])"
  by (simp add: explicit_data_call_def parse_eval demo_url_widgets_slug)

text \<open>
  C5, amended. When a call has exactly two trailing config-object arguments and the parser
  yields a config: the second argument as resolved (an empty object when it is nil) is the
  config that gets completed; the routing method is that config's \<open>method\<close>, or the call's
  default method when the config sets none, and it is a string, compared lower-cased.
  A key that the config sets keeps its value. Of the keys it does not set, \<open>data\<close> is the
  first resolved argument when the routing method is put, post or patch and the argument
  is not nil, \<open>params\<close> is the first resolved argument when the routing method is another
  one and the argument is not nil, each is \<open>null\<close> otherwise, \<open>url\<close> is the built URL and
  \<open>method\<close> the default method as passed.
\<close>

theorem parseArgs_two_configs:
  assumes two: "configObjectArgs arguments = [a0, a1]"
    and ok: "parseArgs h c arguments = Inr config"
  shows "\<exists>r0 r1 url m.
           deepResolve a0 = Inr r0 \<and> deepResolve a1 = Inr r1 \<and>
           buildUrl h c (resolveUrlArgs arguments) = Inr url \<and>
           get_default (if isNil r1 then JObj [] else r1) ''method'' (defaultMethod arguments) = JStr m \<and>
           (\<forall>k. get config k =
              (if get (if isNil r1 then JObj [] else r1) k \<noteq> JUndefined
                 then get (if isNil r1 then JObj [] else r1) k
               else if k = ''url'' then JStr url
               else if k = ''method'' then defaultMethod arguments
               else if k = ''data''
                 then (if toLower m \<in> {''put'', ''post'', ''patch''} \<and> \<not> isNil r0 then r0 else JNull)
               else if k = ''params''
                 then (if toLower m \<notin> {''put'', ''post'', ''patch''} \<and> \<not> isNil r0 then r0 else JNull)
               else JUndefined))"
proof -
  have s0: "isPlainObject a0 \<or> isNil a0" and s1: "isPlainObject a1 \<or> isNil a1"
    using configObjectArgs_shape [of _ arguments] two by simp_all
  from parseArgs_Inr_parts [OF ok] obtain rs url
    where rs: "deepResolve_map (configObjectArgs arguments) = Inr rs"
      and url: "buildUrl h c (resolveUrlArgs arguments) = Inr url"
    by blast
  from deepResolve_map_two [OF s0 s1] rs two obtain r0 r1
    where r0: "deepResolve a0 = Inr r0" and r1: "deepResolve a1 = Inr r1" and rs_eq: "rs = [r0, r1]"
    by auto
  let ?cfg = "if isNil r1 then JObj [] else r1"
  let ?dm = "defaultMethod arguments"
  let ?data = "\<lambda>m. if toLower m \<in> {''put'', ''post'', ''patch''} \<and> \<not> isNil r0 then r0 else JNull"
  let ?params = "\<lambda>m. if toLower m \<notin> {''put'', ''post'', ''patch''} \<and> \<not> isNil r0 then r0 else JNull"
  have props: "hasProperties ?cfg"
    using deepResolve_plain_shape [OF s1 r1] by (rule config_or_empty_hasProperties)
  have parsed: "(case disambiguate [r0, r1] ?dm of
        Inl e \<Rightarrow> Inl e
      | Inr (config, data, params) \<Rightarrow>
          Inr (defaults config [(''url'', JStr url), (''method'', ?dm), (''data'', data), (''params'', params)]))
      = Inr config"
    using parseArgs_resolved [OF rs url] ok rs_eq by simp
  have "\<exists>m. get_default ?cfg ''method'' ?dm = JStr m"
  proof (cases "get_default ?cfg ''method'' ?dm")
    case (JStr m)
    then show ?thesis by blast
  qed (use parsed in \<open>simp_all add: disambiguate_two\<close>)
  then obtain m where m: "get_default ?cfg ''method'' ?dm = JStr m"
    by blast
  have "disambiguate [r0, r1] ?dm = Inr (?cfg, ?data m, ?params m)"
    by (simp add: disambiguate_two m)
  with parsed have config: "config = defaults ?cfg
      [(''url'', JStr url), (''method'', ?dm), (''data'', ?data m), (''params'', ?params m)]"
    by simp
  have "\<forall>k. get config k =
              (if get ?cfg k \<noteq> JUndefined then get ?cfg k
               else if k = ''url'' then JStr url
               else if k = ''method'' then ?dm
               else if k = ''data'' then ?data m
               else if k = ''params'' then ?params m
               else JUndefined)"
    unfolding config get_defaults4 [OF props] by simp
  with r0 r1 url m show ?thesis
    by blast
qed



text \<open>C5 amended, at a call of the \<open>get\<close> wrapper with the config \<open>{method: 'POST'}\<close>.\<close>

theorem parseArgs_two_configs_witness:
  "configObjectArgs two_config_call = [JObj [(''y'', JNum 2)], post_config] \<and>
   parseArgs demo_host demo_client two_config_call =
     Inr (JObj [(''method'', JStr ''POST''), (''url'', JStr ''https://host/api/widgets''),
                (''data'', JObj [(''y'', JNum 2)]), (''params'', JNull)]) \<and>
   (\<exists>r0 r1 url m.
      deepResolve (JObj [(''y'', JNum 2)]) = Inr r0 \<and> deepResolve post_config = Inr r1 \<and>
      buildUrl demo_host demo_client (resolveUrlArgs two_config_call) = Inr url \<and>
      get_default (if isNil r1 then JObj [] else r1) ''method'' (defaultMethod two_config_call) = JStr m \<and>
      (\<forall>k. get (JObj [(''method'', JStr ''POST''), (''url'', JStr ''https://host/api/widgets''),
                       (''data'', JObj [(''y'', JNum 2)]), (''params'', JNull)]) k =
         (if get (if isNil r1 then JObj [] else r1) k \<noteq> JUndefined
            then get (if isNil r1 then JObj [] else r1) k
          else if k = ''url'' then JStr url
          else if k = ''method'' then defaultMethod two_config_call
          else if k = ''data''
            then (if toLower m \<in> {''put'', ''post'', ''patch''} \<and> \<not> isNil r0 then r0 else JNull)
          else if k = ''params''
            then (if toLower m \<notin> {''put'', ''post'', ''patch''} \<and> \<not> isNil r0 then r0 else JNull)
          else JUndefined)))"
proof -
  have h1: "configObjectArgs two_config_call = [JObj [(''y'', JNum 2)], post_config]"
    by (simp add: two_config_call_def post_config_def configObjectArgs_def takeRightWhile_def)
  have h2: "parseArgs demo_host demo_client two_config_call =
     Inr (JObj [(''method'', JStr ''POST''), (''url'', JStr ''https://host/api/widgets''),
                (''data'', JObj [(''y'', JNum 2)]), (''params'', JNull)])"
    by (simp add: two_config_call_def post_config_def parse_eval demo_url_widgets_slug)
  show ?thesis
    by (rule conjI [OF h1 conjI [OF h2 parseArgs_two_configs [OF h1 h2]]])
qed

section \<open>Rejected promises inside the arguments\<close>




section \<open>The method of the request config\<close>

text \<open>
  C10. The argument parser never lower-cases the method it stores: whenever it yields a
  config, the config's \<open>method\<close> is the method of the selected config object exactly as
  the caller wrote it, or the call's default method exactly as passed when the object sets
  none. The lower-cased form exists only inside the branch for two config-object
  arguments. For a client whose authentication callback is not invoked, the first request
  handed to the transport carries that same method.
\<close>

theorem method_is_never_lower_cased:
  assumes ok: "parseArgs h c arguments = Inr config"
  shows "\<exists>rs. deepResolve_map (configObjectArgs arguments) = Inr rs \<and>
           get config ''method'' = get_default (selected_config rs) ''method'' (defaultMethod arguments) \<and>
           (\<forall>fuel w outcome issued w'.
              isEmpty (c_authCallback c) \<and> request fuel h c arguments w = (outcome, issued, w') \<and>
              issued \<noteq> []
              \<longrightarrow> get (hd issued) ''method'' = get config ''method'')"
proof -
  from parseArgs_Inr_parts [OF ok] obtain rs url
    where rs: "deepResolve_map (configObjectArgs arguments) = Inr rs"
      and url: "buildUrl h c (resolveUrlArgs arguments) = Inr url"
    by blast
  from parseArgs_resolved [OF rs url] ok obtain cfg d p
    where dis: "disambiguate rs (defaultMethod arguments) = Inr (cfg, d, p)"
      and config: "config = defaults cfg [(''url'', JStr url), (''method'', defaultMethod arguments),
          (''data'', d), (''params'', p)]"
    by (cases "disambiguate rs (defaultMethod arguments)") auto
  have cfg: "cfg = selected_config rs"
    using dis by (rule disambiguate_config)
  have "\<forall>a \<in> set (configObjectArgs arguments). isPlainObject a \<or> isNil a"
    using configObjectArgs_shape by blast
  then have "\<forall>r \<in> set rs. isPlainObject r \<or> isNil r"
    using rs by (rule deepResolve_map_shape)
  then have props: "hasProperties cfg"
    unfolding cfg by (rule selected_config_hasProperties)
  have parser: "get config ''method'' = get_default (selected_config rs) ''method'' (defaultMethod arguments)"
    unfolding config get_defaults4 [OF props] by (simp add: cfg get_default_def isUndefined_iff)
  have issued: "get (hd issued) ''method'' = get config ''method''"
    if "isEmpty (c_authCallback c)" and "request fuel h c arguments w = (outcome, issued, w')"
      and "issued \<noteq> []" for fuel w outcome issued w'
  proof -
    from request_first_issued [OF that(2,3)] ok obtain w1
      where auth: "authenticate h c (formDataStep h config) w = (Inr (hd issued), w1)"
      by auto
    have "get (hd issued) ''method'' = get (formDataStep h config) ''method''"
      using auth that(1) by (rule get_authenticate_other) simp_all
    then show ?thesis
      by (simp add: get_formDataStep_other)
  qed
  from rs parser issued show ?thesis
    by blast
qed


text \<open>C10 at a call of the \<open>get\<close> wrapper with the config \<open>{method: 'POST'}\<close>.\<close>

theorem method_is_never_lower_cased_witness:
  "parseArgs demo_host demo_client two_config_call =
     Inr (JObj [(''method'', JStr ''POST''), (''url'', JStr ''https://host/api/widgets''),
                (''data'', JObj [(''y'', JNum 2)]), (''params'', JNull)]) \<and>
   (\<exists>rs. deepResolve_map (configObjectArgs two_config_call) = Inr rs \<and>
      get (JObj [(''method'', JStr ''POST''), (''url'', JStr ''https://host/api/widgets''),
                 (''data'', JObj [(''y'', JNum 2)]), (''params'', JNull)]) ''method'' =
        get_default (selected_config rs) ''method'' (defaultMethod two_config_call) \<and>
      (\<forall>fuel w outcome issued w'.
         isEmpty (c_authCallback demo_client) \<and>
         request fuel demo_host demo_client two_config_call w = (outcome, issued, w') \<and>
         issued \<noteq> []
         \<longrightarrow> get (hd issued) ''method'' =
             get (JObj [(''method'', JStr ''POST''), (''url'', JStr ''https://host/api/widgets''),
                        (''data'', JObj [(''y'', JNum 2)]), (''params'', JNull)]) ''method''))"
proof -
  have h: "parseArgs demo_host demo_client two_config_call =
     Inr (JObj [(''method'', JStr ''POST''), (''url'', JStr ''https://host/api/widgets''),
                (''data'', JObj [(''y'', JNum 2)]), (''params'', JNull)])"
    by (simp add: two_config_call_def post_config_def parse_eval demo_url_widgets_slug)
  show ?thesis
    by (rule conjI [OF h method_is_never_lower_cased [OF h]])
qed

section \<open>When the body is serialized as form data\<close>

text \<open>
  C4, as the specification states it: the body is serialized when the content-type header
  equals \<open>multipart/form-data\<close> without regard to case, data is present and it is no
  \<open>FormData\<close>. The header name is matched without regard to case, its value is compared
  with \<open>===\<close>: under \<open>Content-Type: Multipart/Form-Data\<close> a body that is present and no
  \<open>FormData\<close> is left as it is, like the rest of the config.
\<close>

theorem header_value_is_compared_exactly:
  "toLower ''Multipart/Form-Data'' = ''multipart/form-data'' \<and>
   \<not> isNil (get mixed_case_config ''data'') \<and>
   \<not> isFormData (get mixed_case_config ''data'') \<and>
   formDataStep demo_host mixed_case_config = mixed_case_config"
  by (simp add: mixed_case_config_def formDataStep_def contentTypeHeader_def
      contentTypeHeaderKey_def keys_def toLower_def to_lower_char_def)

text \<open>
  C4, amended. For every request config, other than one that has no content-type header
  at all and a header literally named \<open>undefined\<close> with the value \<open>multipart/form-data\<close>,
  the multipart step replaces the body by its form-data serialization if and only if the
  first header whose name equals \<open>content-type\<close> without regard to case has exactly the
  value \<open>multipart/form-data\<close>, body data is present (neither \<open>null\<close> nor \<open>undefined\<close>),
  and the data is not a \<open>FormData\<close> instance; otherwise the body stays as it is.
\<close>

theorem formData_serialization_trigger:
  assumes "contentTypeHeaderKey config \<noteq> None \<or>
           get (get config ''headers'') ''undefined'' \<noteq> JStr ''multipart/form-data''"
  shows "get (formDataStep h config) ''data'' =
     (if (\<exists>key. contentTypeHeaderKey config = Some key \<and>
                get (get config ''headers'') key = JStr ''multipart/form-data'') \<and>
         \<not> isNil (get config ''data'') \<and> \<not> isFormData (get config ''data'')
      then serializeObjectToFormData (get config ''data'')
      else get config ''data'')"
  unfolding formDataStep_data contentTypeHeader_found [OF assms] ..


text \<open>C4 amended, at a config with \<open>Content-Type: multipart/form-data\<close> and a plain body.\<close>

theorem formData_serialization_trigger_witness:
  "contentTypeHeaderKey multipart_config = Some ''Content-Type'' \<and>
   get (formDataStep demo_host multipart_config) ''data'' = JFormData [(''a[]'', JStr [])]"
proof -
  have key: "contentTypeHeaderKey multipart_config = Some ''Content-Type''"
    by (simp add: multipart_config_def contentTypeHeaderKey_def keys_def toLower_def
        to_lower_char_def)
  then have h: "contentTypeHeaderKey multipart_config \<noteq> None \<or>
      get (get multipart_config ''headers'') ''undefined'' \<noteq> JStr ''multipart/form-data''"
    by simp
  have "get (formDataStep demo_host multipart_config) ''data'' = JFormData [(''a[]'', JStr [])]"
    unfolding formData_serialization_trigger [OF h] key
    by (simp add: multipart_config_def serializeObjectToFormData_def arrayLikeLength_def
        property_key_def element_key_def append_field_def)
  with key show ?thesis
    by blast
qed

end
